theory Spec2Isabelle
  imports Complex_Main
begin

section \<open>Linear-algebra values\<close>

text \<open>
  Eigen's fixed-size \<open>Vector3d\<close>, \<open>Vector2d\<close> and \<open>Matrix3d\<close>, with the coefficient type
  left open: the kinematic identities are stated over \<open>real\<close>, the placeholder matrices
  of the aerodynamic-angle ephemeris over \<open>double\<close> (below), which has a NaN.
  \<open>c\<^sub>i\<^sub>j\<close> is the coefficient \<open>M(i, j)\<close> (row \<open>i\<close>, column \<open>j\<close>).
\<close>

datatype 'a Vector3 = Vector3 (vec_x: 'a) (vec_y: 'a) (vec_z: 'a)

datatype 'a Vector2 = Vector2 (vec2_0: 'a) (vec2_1: 'a)

datatype 'a Matrix3 = Matrix3
  (c00: 'a) (c01: 'a) (c02: 'a)
  (c10: 'a) (c11: 'a) (c12: 'a)
  (c20: 'a) (c21: 'a) (c22: 'a)

type_synonym Vector3d = "real Vector3"
type_synonym Vector2d = "real Vector2"
type_synonym Matrix3d = "real Matrix3"

text \<open>The coefficient \<open>v( i )\<close> of a vector, for \<open>i\<close> in 0, 1, 2.\<close>

definition vector_component :: "'a Vector3 \<Rightarrow> nat \<Rightarrow> 'a" where
  "vector_component v i = [vec_x v, vec_y v, vec_z v] ! i"

text \<open>\<open>Matrix3d::Constant(v)\<close>: every coefficient is \<open>v\<close>.\<close>

definition Matrix3_Constant :: "'a \<Rightarrow> 'a Matrix3" where
  "Matrix3_Constant v = Matrix3 v v v v v v v v v"

definition Matrix3_Identity :: Matrix3d where
  "Matrix3_Identity = Matrix3 1 0 0  0 1 0  0 0 1"

text \<open>Matrix product \<open>A * B\<close>, matrix-vector product \<open>A * v\<close>, unary minus and transpose.\<close>

definition mat_mul :: "Matrix3d \<Rightarrow> Matrix3d \<Rightarrow> Matrix3d" where
  "mat_mul A B = Matrix3
     (c00 A * c00 B + c01 A * c10 B + c02 A * c20 B)
     (c00 A * c01 B + c01 A * c11 B + c02 A * c21 B)
     (c00 A * c02 B + c01 A * c12 B + c02 A * c22 B)
     (c10 A * c00 B + c11 A * c10 B + c12 A * c20 B)
     (c10 A * c01 B + c11 A * c11 B + c12 A * c21 B)
     (c10 A * c02 B + c11 A * c12 B + c12 A * c22 B)
     (c20 A * c00 B + c21 A * c10 B + c22 A * c20 B)
     (c20 A * c01 B + c21 A * c11 B + c22 A * c21 B)
     (c20 A * c02 B + c21 A * c12 B + c22 A * c22 B)"

definition mat_vec :: "Matrix3d \<Rightarrow> Vector3d \<Rightarrow> Vector3d" where
  "mat_vec A v = Vector3
     (c00 A * vec_x v + c01 A * vec_y v + c02 A * vec_z v)
     (c10 A * vec_x v + c11 A * vec_y v + c12 A * vec_z v)
     (c20 A * vec_x v + c21 A * vec_y v + c22 A * vec_z v)"

definition mat_neg :: "Matrix3d \<Rightarrow> Matrix3d" where
  "mat_neg A = Matrix3
     (- c00 A) (- c01 A) (- c02 A)
     (- c10 A) (- c11 A) (- c12 A)
     (- c20 A) (- c21 A) (- c22 A)"

definition mat_transpose :: "Matrix3d \<Rightarrow> Matrix3d" where
  "mat_transpose A = Matrix3
     (c00 A) (c10 A) (c20 A)
     (c01 A) (c11 A) (c21 A)
     (c02 A) (c12 A) (c22 A)"

definition mat_det :: "Matrix3d \<Rightarrow> real" where
  "mat_det A =
     c00 A * (c11 A * c22 A - c12 A * c21 A)
   - c01 A * (c10 A * c22 A - c12 A * c20 A)
   + c02 A * (c10 A * c21 A - c11 A * c20 A)"

text \<open>A matrix is orthonormal when its transpose is its inverse on both sides.\<close>

definition orthonormal :: "Matrix3d \<Rightarrow> bool" where
  "orthonormal R \<longleftrightarrow>
     mat_mul R (mat_transpose R) = Matrix3_Identity \<and>
     mat_mul (mat_transpose R) R = Matrix3_Identity"

text \<open>
  Modelled from the spec: \<open>linear_algebra::getCrossProductMatrix\<close> is declared in
  \<open>Tudat/Mathematics/BasicMathematics/linearAlgebra.h\<close>, which is not among the sources.
  The spec calls it \<open>skew\<close>: the antisymmetric matrix \<open>[v]\<^sub>\<times>\<close> with \<open>[v]\<^sub>\<times> w = v \<times> w\<close>,
  whose three independent entries \<open>(2,1)\<close>, \<open>(0,2)\<close>, \<open>(1,0)\<close> are \<open>v\<close>'s components.
\<close>

definition getCrossProductMatrix :: "Vector3d \<Rightarrow> Matrix3d" where
  "getCrossProductMatrix v = Matrix3
     0           (- vec_z v)  (vec_y v)
     (vec_z v)   0            (- vec_x v)
     (- vec_y v) (vec_x v)    0"

section \<open>Frame kinematics (rotationalEphemeris.cpp)\<close>

text \<open>
  \<open>getRotationalVelocityVectorInBaseFrameFromMatrices\<close>: the product of the derivative of
  the rotation to the global (base) frame with the rotation to the target frame, read at
  the entries \<open>(2,1)\<close>, \<open>(0,2)\<close>, \<open>(1,0)\<close>.
\<close>

definition getRotationalVelocityVectorInBaseFrameFromMatrices ::
    "Matrix3d \<Rightarrow> Matrix3d \<Rightarrow> Vector3d" where
  "getRotationalVelocityVectorInBaseFrameFromMatrices
       rotationToTargetFrame rotationMatrixToGlobalFrameDerivative =
     (let crossProductMatrix =
            mat_mul rotationMatrixToGlobalFrameDerivative rotationToTargetFrame
      in Vector3 (c21 crossProductMatrix) (c02 crossProductMatrix) (c10 crossProductMatrix))"

text \<open>
  \<open>getDerivativeOfRotationMatrixToFrame\<close>: \<open>getCrossProductMatrix(-R * \<omega>) * R\<close>; the unary
  minus applies to the matrix, as in the C++ expression.
\<close>

definition getDerivativeOfRotationMatrixToFrame :: "Matrix3d \<Rightarrow> Vector3d \<Rightarrow> Matrix3d" where
  "getDerivativeOfRotationMatrixToFrame
       rotationToTargetFrame rotationalVelocityVectorOfTargetFrameInBaseFrame =
     mat_mul
       (getCrossProductMatrix
          (mat_vec (mat_neg rotationToTargetFrame)
                   rotationalVelocityVectorOfTargetFrameInBaseFrame))
       rotationToTargetFrame"

section \<open>Doubles with the NaN sentinel, and errors\<close>

text \<open>
  Arithmetic is modelled over the reals. The only non-real double the sources use is
  \<open>TUDAT_NAN\<close>: as the "no time yet" value of \<open>currentTime_\<close> and as the filler of the
  derivative matrices. \<open>double_eq\<close> is the C++ \<open>==\<close>: a NaN is equal to nothing, itself
  included.
\<close>

datatype double = Finite real | NaN

definition TUDAT_NAN :: double where
  "TUDAT_NAN = NaN"

fun double_eq :: "double \<Rightarrow> double \<Rightarrow> bool" where
  "double_eq (Finite a) (Finite b) = (a = b)"
| "double_eq _ _ = False"

text \<open>
  Every failure of the sources is a thrown \<open>std::runtime_error\<close> (or \<open>std::out_of_range\<close>
  from \<open>map::at\<close>); the constructors name them after the spec's taxonomy, with the
  message of the throw site:
  \<^item> \<open>InconsistentInputSizes\<close>: "input sizes are inconsistent" (merge);
  \<^item> \<open>InconsistentIndependentVariables\<close>: "inconsistent aerodynamic coefficients" (reader);
  \<^item> \<open>NoFilesRead\<close>: "no files read"; \<open>WrongNumberOfFiles\<close>: "wrong number of files";
  \<^item> \<open>ReadError\<close>: any failure of the external file reader;
  \<^item> \<open>SettingsTypeMismatch\<close>: "expected constant/tabulated aerodynamic coefficients ...";
  \<^item> \<open>UnsupportedDimensionality n\<close>: "n dimensions not yet implemented" and
    "found n independent variables, up to 3 currently supported";
  \<^item> \<open>UnrecognizedSettings\<close>: "do not recognize ... coefficient settings";
  \<^item> \<open>OutOfRange\<close>: \<open>map::at\<close> on a missing key;
  \<^item> \<open>UnsupportedOperation\<close>, \<open>ClosureNotReady\<close>: named by the spec only.
\<close>

datatype error =
    InconsistentInputSizes
  | InconsistentIndependentVariables
  | NoFilesRead
  | WrongNumberOfFiles
  | ReadError
  | SettingsTypeMismatch
  | UnsupportedDimensionality int
  | UnrecognizedSettings
  | OutOfRange
  | UnsupportedOperation
  | ClosureNotReady

section \<open>The aerodynamic-angle rotational ephemeris (aeordynamicAngleRotationalEphemeris.h)\<close>

text \<open>Quaternions \<open>w + xi + yj + zk\<close> and Eigen's \<open>inverse()\<close>: the conjugate divided by
  the squared norm, and the zero quaternion when the squared norm is not positive.\<close>

datatype Quaterniond = Quaternion (quat_w: real) (quat_x: real) (quat_y: real) (quat_z: real)

definition squaredNorm :: "Quaterniond \<Rightarrow> real" where
  "squaredNorm q = quat_w q * quat_w q + quat_x q * quat_x q
                 + quat_y q * quat_y q + quat_z q * quat_z q"

definition quat_inverse :: "Quaterniond \<Rightarrow> Quaterniond" where
  "quat_inverse q =
     (let n2 = squaredNorm q
      in if n2 > 0
         then Quaternion (quat_w q / n2) (- quat_x q / n2) (- quat_y q / n2) (- quat_z q / n2)
         else Quaternion 0 0 0 0)"

text \<open>The two frames the ephemeris asks its angle calculator about.\<close>

datatype AerodynamicsReferenceFrames = inertial_frame | body_frame

text \<open>
  The collaborators whose code is not among the sources, as parameters: the
  \<open>AerodynamicAngleCalculator\<close> (its state is the type \<open>'c\<close>) and Eigen's conversion of a
  rotation matrix to a quaternion. \<open>calculatorUpdate\<close> is what the spec's \<open>update\<close> asks of
  the calculator: take the time and the body angles and recompute the rotations.
\<close>

record 'c Collaborators =
  setAerodynamicAngleClosureIsIncomplete :: "'c \<Rightarrow> 'c"
  calculatorUpdate :: "'c \<Rightarrow> double \<Rightarrow> Vector3d \<Rightarrow> 'c"
  getRotationMatrixBetweenFrames ::
    "'c \<Rightarrow> AerodynamicsReferenceFrames \<Rightarrow> AerodynamicsReferenceFrames \<Rightarrow> Matrix3d"
  quaternionOfMatrix :: "Matrix3d \<Rightarrow> Quaterniond"

text \<open>
  The members of the class (the trailing underscore of the C++ names is dropped). A
  \<open>std::function\<close> that is \<open>nullptr\<close> is \<open>None\<close>. \<open>angleFunctionCalls\<close> is not a member:
  it is the instrumentation the spec asks for, the list of times at which the registered
  angle function has been invoked.
\<close>

record 'c AerodynamicAngleRotationalEphemeris =
  aerodynamicAngleCalculator :: 'c
  aerodynamicAngleFunction :: "(double \<Rightarrow> Vector3d) option"
  currentBodyAngles :: Vector3d
  currentTime :: double
  isBodyInPropagation :: bool
  angleFunctionCalls :: "double list"

text \<open>The constructor; \<open>currentBodyAngles_\<close> is left uninitialised by the C++, so its
  starting value is an argument here.\<close>

definition newAerodynamicAngleRotationalEphemeris ::
    "'c Collaborators \<Rightarrow> 'c \<Rightarrow> (double \<Rightarrow> Vector3d) option \<Rightarrow> Vector3d
      \<Rightarrow> 'c AerodynamicAngleRotationalEphemeris" where
  "newAerodynamicAngleRotationalEphemeris E calc angleFunction uninitialised =
     \<lparr> aerodynamicAngleCalculator = setAerodynamicAngleClosureIsIncomplete E calc,
       aerodynamicAngleFunction = angleFunction,
       currentBodyAngles = uninitialised,
       currentTime = TUDAT_NAN,
       isBodyInPropagation = False,
       angleFunctionCalls = [] \<rparr>"

text \<open>
  Modelled from the spec: \<open>update\<close> is only declared in the header; its body is in a
  \<open>.cpp\<close> file that is not among the sources. The spec (4.3): "no-op if \<open>t == lastTime\<close>.
  Otherwise invokes the angle source, converts angles plus current trajectory-frame
  rotation into a base-frame orientation via the angle-calculator collaborator, updates
  cache, sets \<open>lastTime = t\<close>"; a query before an angle source is registered fails with
  \<open>ClosureNotReady\<close>, and a failing call changes nothing.
\<close>

definition update ::
    "'c Collaborators \<Rightarrow> double \<Rightarrow> 'c AerodynamicAngleRotationalEphemeris
      \<Rightarrow> error + 'c AerodynamicAngleRotationalEphemeris" where
  "update E t s =
     (if double_eq t (currentTime s) then Inr s
      else (case aerodynamicAngleFunction s of
              None \<Rightarrow> Inl ClosureNotReady
            | Some f \<Rightarrow>
                (let angles = f t
                 in Inr (s\<lparr> aerodynamicAngleCalculator :=
                              calculatorUpdate E (aerodynamicAngleCalculator s) t angles,
                            currentBodyAngles := angles,
                            currentTime := t,
                            angleFunctionCalls := angleFunctionCalls s @ [t] \<rparr>))))"

text \<open>\<open>getRotationToBaseFrame\<close>: update, then the calculator's body-to-inertial rotation
  as a quaternion. The result carries the state the call leaves behind.\<close>

definition getRotationToBaseFrame ::
    "'c Collaborators \<Rightarrow> double \<Rightarrow> 'c AerodynamicAngleRotationalEphemeris
      \<Rightarrow> error + (Quaterniond \<times> 'c AerodynamicAngleRotationalEphemeris)" where
  "getRotationToBaseFrame E t s =
     (case update E t s of
        Inl e \<Rightarrow> Inl e
      | Inr s' \<Rightarrow>
          Inr (quaternionOfMatrix E
                 (getRotationMatrixBetweenFrames E (aerodynamicAngleCalculator s')
                    body_frame inertial_frame),
               s'))"

text \<open>\<open>getRotationToTargetFrame\<close>: \<open>getRotationToBaseFrame( currentTime ).inverse( )\<close>.\<close>

definition getRotationToTargetFrame ::
    "'c Collaborators \<Rightarrow> double \<Rightarrow> 'c AerodynamicAngleRotationalEphemeris
      \<Rightarrow> error + (Quaterniond \<times> 'c AerodynamicAngleRotationalEphemeris)" where
  "getRotationToTargetFrame E t s =
     (case getRotationToBaseFrame E t s of
        Inl e \<Rightarrow> Inl e
      | Inr (q, s') \<Rightarrow> Inr (quat_inverse q, s'))"

text \<open>The derivative queries: \<open>return Eigen::Matrix3d::Constant( TUDAT_NAN )\<close>, whatever the
  time and the state, which they neither read nor change.\<close>

definition getDerivativeOfRotationToBaseFrame :: "double \<Rightarrow> error + double Matrix3" where
  "getDerivativeOfRotationToBaseFrame t = Inr (Matrix3_Constant TUDAT_NAN)"

definition getDerivativeOfRotationToTargetFrame :: "double \<Rightarrow> error + double Matrix3" where
  "getDerivativeOfRotationToTargetFrame t = Inr (Matrix3_Constant TUDAT_NAN)"

definition setAerodynamicAngleFunction ::
    "(double \<Rightarrow> Vector3d) option \<Rightarrow> 'c AerodynamicAngleRotationalEphemeris
      \<Rightarrow> 'c AerodynamicAngleRotationalEphemeris" where
  "setAerodynamicAngleFunction f s = s\<lparr> aerodynamicAngleFunction := f \<rparr>"

text \<open>\<open>addSideslipBankAngleFunctions\<close>: the comma initialiser \<open>Vector3d( ) << a, v2\<close>
  puts the scalar first and the two entries of the \<open>Vector2d\<close> after it.\<close>

definition addSideslipBankAngleFunctions ::
    "(double \<Rightarrow> Vector2d) \<Rightarrow> 'c AerodynamicAngleRotationalEphemeris
      \<Rightarrow> 'c AerodynamicAngleRotationalEphemeris" where
  "addSideslipBankAngleFunctions sideslipAndBankAngleFunction s =
     (case aerodynamicAngleFunction s of
        None \<Rightarrow>
          s\<lparr> aerodynamicAngleFunction := Some (\<lambda>time.
               Vector3 0.0
                 (vec2_0 (sideslipAndBankAngleFunction time))
                 (vec2_1 (sideslipAndBankAngleFunction time))) \<rparr>
      | Some oldAerodynamicAngleFunction \<Rightarrow>
          s\<lparr> aerodynamicAngleFunction := Some (\<lambda>time.
               Vector3 (vec_x (oldAerodynamicAngleFunction time))
                 (vec2_0 (sideslipAndBankAngleFunction time))
                 (vec2_1 (sideslipAndBankAngleFunction time))) \<rparr>)"

section \<open>Multi-dimensional arrays (boost multi-arrays, as the reader uses them)\<close>

text \<open>
  A \<open>boost::multi_array< T, N >\<close> in its default C storage order with zero index bases:
  the extents and the elements in storage order (the last index runs fastest).
  \<open>ma_data m ! k\<close> is the element at \<open>m.data( ) + k\<close>; \<open>origin( )\<close> is \<open>data( )\<close>. The
  array owns \<open>num_elements\<close> elements, which \<open>wellformed\<close> states. Element counts are
  kept as natural numbers: the \<open>int\<close> and \<open>unsigned int\<close> counters of the C++ hold them
  as long as a table has fewer than \<open>2^31\<close> entries.
\<close>

record 'a multi_array =
  ma_shape :: "nat list"
  ma_data :: "'a list"

definition num_dimensions :: "'a multi_array \<Rightarrow> nat" where
  "num_dimensions m = length (ma_shape m)"

definition num_elements :: "'a multi_array \<Rightarrow> nat" where
  "num_elements m = prod_list (ma_shape m)"

definition wellformed :: "nat \<Rightarrow> 'a multi_array \<Rightarrow> bool" where
  "wellformed N m \<longleftrightarrow> length (ma_shape m) = N \<and> length (ma_data m) = prod_list (ma_shape m)"

text \<open>The stride of a dimension is the product of the extents after it.\<close>

fun strides_of :: "nat list \<Rightarrow> nat list" where
  "strides_of [] = []"
| "strides_of (d # ds) = prod_list ds # strides_of ds"

definition strides :: "'a multi_array \<Rightarrow> nat list" where
  "strides m = strides_of (ma_shape m)"

definition index_bases :: "'a multi_array \<Rightarrow> nat list" where
  "index_bases m = replicate (length (ma_shape m)) 0"

text \<open>\<open>m( index )\<close>: the element at offset \<open>\<Sum> index[k] * strides[k]\<close> from the origin.\<close>

definition element_offset :: "'a multi_array \<Rightarrow> nat list \<Rightarrow> nat" where
  "element_offset m index = sum_list (map2 (*) index (strides m))"

definition element_at :: "'a multi_array \<Rightarrow> nat list \<Rightarrow> 'a" where
  "element_at m index = ma_data m ! element_offset m index"

text \<open>A multi-index of an array: one index per dimension, each below its extent.\<close>

definition valid_index :: "'a multi_array \<Rightarrow> nat list \<Rightarrow> bool" where
  "valid_index m index \<longleftrightarrow> list_all2 (<) index (ma_shape m)"

text \<open>\<open>resize( sizeVector )\<close> of an empty array followed by \<open>std::fill\<close> with \<open>0.0\<close>.\<close>

definition zero_filled :: "nat list \<Rightarrow> real multi_array" where
  "zero_filled sizeVector =
     \<lparr> ma_shape = sizeVector, ma_data = replicate (prod_list sizeVector) 0.0 \<rparr>"

section \<open>The coefficient reader (aerodynamicCoefficientReader.h)\<close>

text \<open>\<open>getIndex\<close>: the pointer \<open>requestedElement\<close> is given by its offset from the origin.
  The division is only evaluated for an element of the array, so no extent is zero.\<close>

definition getIndex :: "'a multi_array \<Rightarrow> nat \<Rightarrow> nat \<Rightarrow> nat" where
  "getIndex m requestedElement direction =
     (let offset = requestedElement
      in offset div (strides m ! direction) mod (ma_shape m ! direction)
         + index_bases m ! direction)"

text \<open>\<open>getMultiArrayIndexArray\<close>: the three overloads (1, 2 and 3 dimensions) differ only
  in the bound of the loop, which is the first argument here.\<close>

definition getMultiArrayIndexArray :: "nat \<Rightarrow> 'a multi_array \<Rightarrow> nat \<Rightarrow> nat list" where
  "getMultiArrayIndexArray N m requestedElement =
     map (\<lambda>dir. getIndex m requestedElement dir) [0..<N]"

text \<open>
  \<open>mergeNDimensionalCoefficients< N >\<close>: the consistency loop over the dimensions, then
  one \<open>Vector3d\<close> per element of \<open>xComponents\<close> in storage order, each read from the three
  arrays at the multi-index of that element.
\<close>

definition mergeNDimensionalCoefficients ::
    "nat \<Rightarrow> real multi_array \<Rightarrow> real multi_array \<Rightarrow> real multi_array
      \<Rightarrow> error + Vector3d multi_array" where
  "mergeNDimensionalCoefficients N xComponents yComponents zComponents =
     (if list_ex (\<lambda>i. \<not> (ma_shape xComponents ! i = ma_shape yComponents ! i) \<or>
                      \<not> (ma_shape xComponents ! i = ma_shape zComponents ! i)) [0..<N]
      then Inl InconsistentInputSizes
      else
        (let sizeVector = ma_shape xComponents;
             numberOfEntries = num_elements xComponents;
             vectorVector =
               map (\<lambda>p. let index = getMultiArrayIndexArray N xComponents p
                         in Vector3 (element_at xComponents index)
                                    (element_at yComponents index)
                                    (element_at zComponents index))
                   [0..<numberOfEntries]
         in Inr \<lparr> ma_shape = sizeVector, ma_data = vectorVector \<rparr>))"

text \<open>
  Modelled from the spec: \<open>compareIndependentVariables\<close> is only declared in the header.
  Its documentation there: "True of the two lists are completely equal in size and
  contents, false otherwise".
\<close>

definition compareIndependentVariables :: "real list list \<Rightarrow> real list list \<Rightarrow> bool" where
  "compareIndependentVariables list1 list2 \<longleftrightarrow> list1 = list2"

text \<open>
  The external file reader \<open>MultiArrayFileReader< N >::readMultiArrayAndIndependentVariables\<close>
  is a parameter: from a file name to the table and its independent variables, or a
  failure. A \<open>std::map< int, T >\<close> is the list of its entries in iteration order, that is
  by ascending key; \<open>begin( )\<close> is its head and \<open>count\<close> and \<open>at\<close> are \<open>map_of\<close>. The
  loop below inserts under the keys of the file-name map in that order, so it appends.
\<close>

type_synonym FileReader = "string \<Rightarrow> error + (real multi_array \<times> real list list)"

text \<open>The reading loop of \<open>readAerodynamicCoefficients\<close>, with \<open>rawCoefficientArrays\<close> and
  \<open>independentVariables\<close> as its state.\<close>

fun readLoop ::
    "FileReader \<Rightarrow> (int \<times> string) list
      \<Rightarrow> (int \<times> real multi_array) list \<times> real list list
      \<Rightarrow> error + ((int \<times> real multi_array) list \<times> real list list)" where
  "readLoop reader [] (rawCoefficientArrays, independentVariables) =
     Inr (rawCoefficientArrays, independentVariables)"
| "readLoop reader ((key, fileName) # rest) (rawCoefficientArrays, independentVariables) =
     (case reader fileName of
        Inl e \<Rightarrow> Inl e
      | Inr currentCoefficients \<Rightarrow>
          if length rawCoefficientArrays = 0
          then readLoop reader rest
                 (rawCoefficientArrays @ [(key, fst currentCoefficients)],
                  snd currentCoefficients)
          else if \<not> compareIndependentVariables independentVariables (snd currentCoefficients)
          then Inl InconsistentIndependentVariables
          else readLoop reader rest
                 (rawCoefficientArrays @ [(key, fst currentCoefficients)],
                  independentVariables))"

text \<open>The three component arrays: the one read for the axis, or zeros of the shape of
  \<open>rawCoefficientArrays.begin( )->second\<close>.\<close>

definition componentArray ::
    "(int \<times> real multi_array) list \<Rightarrow> nat \<Rightarrow> real multi_array" where
  "componentArray rawCoefficientArrays i =
     (let firstMultiArray = snd (hd rawCoefficientArrays)
      in case map_of rawCoefficientArrays (int i) of
           Some a \<Rightarrow> a
         | None \<Rightarrow> zero_filled (ma_shape firstMultiArray))"

definition readAerodynamicCoefficients ::
    "nat \<Rightarrow> FileReader \<Rightarrow> (int \<times> string) list
      \<Rightarrow> error + (Vector3d multi_array \<times> real list list)" where
  "readAerodynamicCoefficients N reader fileNames =
     (case readLoop reader fileNames ([], []) of
        Inl e \<Rightarrow> Inl e
      | Inr (rawCoefficientArrays, independentVariables) \<Rightarrow>
          if length rawCoefficientArrays = 0 then Inl NoFilesRead
          else
            (let coefficientArrays = map (componentArray rawCoefficientArrays) [0..<3]
             in case mergeNDimensionalCoefficients N
                       (coefficientArrays ! 0) (coefficientArrays ! 1) (coefficientArrays ! 2) of
                  Inl e \<Rightarrow> Inl e
                | Inr merged \<Rightarrow> Inr (merged, independentVariables)))"

text \<open>The overload taking a vector of exactly three file names.\<close>

definition readAerodynamicCoefficientsOfVector ::
    "nat \<Rightarrow> FileReader \<Rightarrow> string list
      \<Rightarrow> error + (Vector3d multi_array \<times> real list list)" where
  "readAerodynamicCoefficientsOfVector N reader fileNames =
     (if length fileNames \<noteq> 3 then Inl WrongNumberOfFiles
      else readAerodynamicCoefficients N reader (zip [0, 1, 2] fileNames))"

section \<open>The coefficient-interface factory (createFlightConditions.cpp)\<close>

text \<open>
  The settings classes are declared in \<open>createFlightConditions.h\<close>, which is not among
  the sources; what the factory reads of them is modelled here. The declared tag is
  \<open>getAerodynamicCoefficientType( )\<close>; \<open>other_aerodynamic_coefficients\<close> stands for every
  enumerator that the factory's \<open>switch\<close> sends to \<open>default\<close>. The dynamic class of the
  object, which \<open>boost::dynamic_pointer_cast\<close> tests, is the field \<open>settingsClass\<close>:
  the base class, the constant settings with their two coefficient vectors, or
  \<open>TabulatedAerodynamicCoefficientSettings< N >\<close> with its template argument, its force
  and moment tables and its interpolation settings. The table type \<open>'t\<close> and the
  interpolation settings \<open>'i\<close> are left open. Of the independent-variable names only
  their number is used.
\<close>

datatype AerodynamicCoefficientTypes =
    constant_aerodynamic_coefficients
  | tabulated_coefficients
  | other_aerodynamic_coefficients

datatype AerodynamicCoefficientsIndependentVariables =
    mach_number_dependent
  | angle_of_attack_dependent
  | angle_of_sideslip_dependent
  | altitude_dependent
  | control_surface_deflection_dependent
  | undefined_independent_variable

datatype ('t, 'i) SettingsClass =
    AerodynamicCoefficientSettingsBase
  | ConstantAerodynamicCoefficientSettings Vector3d Vector3d
  | TabulatedAerodynamicCoefficientSettings nat 't 't 'i

record ('t, 'i) ControlSurfaceIncrementAerodynamicCoefficientSettings =
  csAerodynamicCoefficientType :: AerodynamicCoefficientTypes
  csIndependentVariableNames :: "AerodynamicCoefficientsIndependentVariables list"
  csSettingsClass :: "('t, 'i) SettingsClass"

record ('t, 'i) AerodynamicCoefficientSettings =
  aerodynamicCoefficientType :: AerodynamicCoefficientTypes
  referenceLength :: real
  referenceArea :: real
  lateralReferenceLength :: real
  momentReferencePoint :: Vector3d
  independentVariableNames :: "AerodynamicCoefficientsIndependentVariables list"
  areCoefficientsInAerodynamicFrame :: bool
  areCoefficientsInNegativeAxisDirection :: bool
  controlSurfaceSettings ::
    "(string \<times> ('t, 'i) ControlSurfaceIncrementAerodynamicCoefficientSettings) list"
  settingsClass :: "('t, 'i) SettingsClass"

text \<open>
  The interfaces the factory builds: a \<open>CustomAerodynamicCoefficientInterface\<close> holds the
  force and the moment coefficient function (from the list of independent-variable
  values to a coefficient vector) and the reference quantities it was constructed with;
  a control-surface increment interface holds its two increment functions.
\<close>

record ControlSurfaceIncrementAerodynamicInterface =
  forceIncrementFunction :: "real list \<Rightarrow> Vector3d"
  momentIncrementFunction :: "real list \<Rightarrow> Vector3d"
  incrementIndependentVariableNames :: "AerodynamicCoefficientsIndependentVariables list"

record AerodynamicCoefficientInterface =
  forceCoefficientFunction :: "real list \<Rightarrow> Vector3d"
  momentCoefficientFunction :: "real list \<Rightarrow> Vector3d"
  interfaceReferenceLength :: real
  interfaceReferenceArea :: real
  interfaceLateralReferenceLength :: real
  interfaceMomentReferencePoint :: Vector3d
  interfaceIndependentVariableNames :: "AerodynamicCoefficientsIndependentVariables list"
  interfaceCoefficientsInAerodynamicFrame :: bool
  interfaceCoefficientsInNegativeAxisDirection :: bool
  controlSurfaceIncrementInterfaces ::
    "(string \<times> ControlSurfaceIncrementAerodynamicInterface) list"

text \<open>
  The interpolation library is a parameter: \<open>createOneDimensionalInterpolator\<close> from a
  table and the interpolation settings to the interpolator, which is used through
  \<open>Interpolator< double, Eigen::Vector3d >::interpolate\<close> only and so is that function;
  \<open>createMultiDimensionalInterpolator\<close> likewise for a table of the given dimension.
\<close>

record ('t, 'i) Interpolators =
  createOneDimensionalInterpolator :: "'t \<Rightarrow> 'i \<Rightarrow> (real list \<Rightarrow> Vector3d)"
  createMultiDimensionalInterpolator :: "nat \<Rightarrow> 't \<Rightarrow> 'i \<Rightarrow> (real list \<Rightarrow> Vector3d)"

text \<open>\<open>createConstantCoefficientAerodynamicCoefficientInterface\<close>: two constant functions
  and no independent variables. The closing \<open>updateFullCurrentCoefficients\<close> with the
  empty list only evaluates them.\<close>

definition createConstantCoefficientAerodynamicCoefficientInterface ::
    "Vector3d \<Rightarrow> Vector3d \<Rightarrow> real \<Rightarrow> real \<Rightarrow> real \<Rightarrow> Vector3d \<Rightarrow> bool \<Rightarrow> bool
      \<Rightarrow> AerodynamicCoefficientInterface" where
  "createConstantCoefficientAerodynamicCoefficientInterface
       constantForceCoefficient constantMomentCoefficient
       refLength refArea lateralRefLength momentRefPoint inAerodynamicFrame inNegativeAxisDirection =
     \<lparr> forceCoefficientFunction = (\<lambda>_. constantForceCoefficient),
       momentCoefficientFunction = (\<lambda>_. constantMomentCoefficient),
       interfaceReferenceLength = refLength,
       interfaceReferenceArea = refArea,
       interfaceLateralReferenceLength = lateralRefLength,
       interfaceMomentReferencePoint = momentRefPoint,
       interfaceIndependentVariableNames = [],
       interfaceCoefficientsInAerodynamicFrame = inAerodynamicFrame,
       interfaceCoefficientsInNegativeAxisDirection = inNegativeAxisDirection,
       controlSurfaceIncrementInterfaces = [] \<rparr>"

text \<open>
  \<open>createUnivariateTabulatedCoefficientAerodynamicCoefficientInterface\<close>: the checked
  downcast to \<open>TabulatedAerodynamicCoefficientSettings< 1 >\<close>, then two interpolators,
  both created from \<open>getForceCoefficients( )\<close>, and the interface, whose lateral reference
  length is \<open>getReferenceLength( )\<close> too.
\<close>

definition createUnivariateTabulatedCoefficientAerodynamicCoefficientInterface ::
    "('t, 'i) Interpolators \<Rightarrow> ('t, 'i) AerodynamicCoefficientSettings \<Rightarrow> string
      \<Rightarrow> error + AerodynamicCoefficientInterface" where
  "createUnivariateTabulatedCoefficientAerodynamicCoefficientInterface I coefficientSettings body =
     (case settingsClass coefficientSettings of
        TabulatedAerodynamicCoefficientSettings n forceCoefficients momentCoefficients
            interpolationSettings \<Rightarrow>
          if n = 1 then
            (let forceInterpolator =
                   createOneDimensionalInterpolator I forceCoefficients interpolationSettings;
                 momentInterpolator =
                   createOneDimensionalInterpolator I forceCoefficients interpolationSettings
             in Inr \<lparr> forceCoefficientFunction = forceInterpolator,
                      momentCoefficientFunction = momentInterpolator,
                      interfaceReferenceLength = referenceLength coefficientSettings,
                      interfaceReferenceArea = referenceArea coefficientSettings,
                      interfaceLateralReferenceLength = referenceLength coefficientSettings,
                      interfaceMomentReferencePoint = momentReferencePoint coefficientSettings,
                      interfaceIndependentVariableNames =
                        independentVariableNames coefficientSettings,
                      interfaceCoefficientsInAerodynamicFrame =
                        areCoefficientsInAerodynamicFrame coefficientSettings,
                      interfaceCoefficientsInNegativeAxisDirection =
                        areCoefficientsInNegativeAxisDirection coefficientSettings,
                      controlSurfaceIncrementInterfaces = [] \<rparr>)
          else Inl SettingsTypeMismatch
      | _ \<Rightarrow> Inl SettingsTypeMismatch)"

text \<open>
  Modelled from the spec: the template
  \<open>createTabulatedCoefficientAerodynamicCoefficientInterface< N >\<close> is defined in
  \<open>createFlightConditions.h\<close>, which is not among the sources. The spec (4.4): "declared
  variant tag must match the concrete payload supplied; mismatch fails
  \<open>SettingsTypeMismatch\<close>"; a matching payload gives the interface that interpolates the
  force and the moment table. The reference quantities follow the univariate sibling.
\<close>

definition createTabulatedCoefficientAerodynamicCoefficientInterface ::
    "nat \<Rightarrow> ('t, 'i) Interpolators \<Rightarrow> ('t, 'i) AerodynamicCoefficientSettings \<Rightarrow> string
      \<Rightarrow> error + AerodynamicCoefficientInterface" where
  "createTabulatedCoefficientAerodynamicCoefficientInterface N I coefficientSettings body =
     (case settingsClass coefficientSettings of
        TabulatedAerodynamicCoefficientSettings n forceCoefficients momentCoefficients
            interpolationSettings \<Rightarrow>
          if n = N then
            Inr \<lparr> forceCoefficientFunction =
                    createMultiDimensionalInterpolator I N forceCoefficients interpolationSettings,
                  momentCoefficientFunction =
                    createMultiDimensionalInterpolator I N momentCoefficients interpolationSettings,
                  interfaceReferenceLength = referenceLength coefficientSettings,
                  interfaceReferenceArea = referenceArea coefficientSettings,
                  interfaceLateralReferenceLength = referenceLength coefficientSettings,
                  interfaceMomentReferencePoint = momentReferencePoint coefficientSettings,
                  interfaceIndependentVariableNames =
                    independentVariableNames coefficientSettings,
                  interfaceCoefficientsInAerodynamicFrame =
                    areCoefficientsInAerodynamicFrame coefficientSettings,
                  interfaceCoefficientsInNegativeAxisDirection =
                    areCoefficientsInNegativeAxisDirection coefficientSettings,
                  controlSurfaceIncrementInterfaces = [] \<rparr>
          else Inl SettingsTypeMismatch
      | _ \<Rightarrow> Inl SettingsTypeMismatch)"

text \<open>
  Modelled from the spec: the template
  \<open>createTabulatedControlSurfaceIncrementAerodynamicCoefficientInterface< N >\<close> is defined
  in the same missing header; by the same sentence of the spec it checks the payload and
  builds the increment interface from the two tables.
\<close>

definition createTabulatedControlSurfaceIncrementAerodynamicCoefficientInterface ::
    "nat \<Rightarrow> ('t, 'i) Interpolators
      \<Rightarrow> ('t, 'i) ControlSurfaceIncrementAerodynamicCoefficientSettings \<Rightarrow> string
      \<Rightarrow> error + ControlSurfaceIncrementAerodynamicInterface" where
  "createTabulatedControlSurfaceIncrementAerodynamicCoefficientInterface N I coefficientSettings body =
     (case csSettingsClass coefficientSettings of
        TabulatedAerodynamicCoefficientSettings n forceCoefficients momentCoefficients
            interpolationSettings \<Rightarrow>
          if n = N then
            Inr \<lparr> forceIncrementFunction =
                    createMultiDimensionalInterpolator I N forceCoefficients interpolationSettings,
                  momentIncrementFunction =
                    createMultiDimensionalInterpolator I N momentCoefficients interpolationSettings,
                  incrementIndependentVariableNames =
                    csIndependentVariableNames coefficientSettings \<rparr>
          else Inl SettingsTypeMismatch
      | _ \<Rightarrow> Inl SettingsTypeMismatch)"

text \<open>\<open>createControlSurfaceIncrementAerodynamicCoefficientInterface\<close>: the outer \<open>switch\<close>
  on the declared tag, the inner one on the number of independent-variable names.\<close>

definition createControlSurfaceIncrementAerodynamicCoefficientInterface ::
    "('t, 'i) Interpolators
      \<Rightarrow> ('t, 'i) ControlSurfaceIncrementAerodynamicCoefficientSettings \<Rightarrow> string
      \<Rightarrow> error + ControlSurfaceIncrementAerodynamicInterface" where
  "createControlSurfaceIncrementAerodynamicCoefficientInterface I coefficientSettings body =
     (case csAerodynamicCoefficientType coefficientSettings of
        tabulated_coefficients \<Rightarrow>
          (let numberOfDimensions = int (length (csIndependentVariableNames coefficientSettings))
           in if numberOfDimensions = 1 then
                createTabulatedControlSurfaceIncrementAerodynamicCoefficientInterface 1 I
                  coefficientSettings body
              else if numberOfDimensions = 2 then
                createTabulatedControlSurfaceIncrementAerodynamicCoefficientInterface 2 I
                  coefficientSettings body
              else if numberOfDimensions = 3 then
                createTabulatedControlSurfaceIncrementAerodynamicCoefficientInterface 3 I
                  coefficientSettings body
              else if numberOfDimensions = 4 then
                createTabulatedControlSurfaceIncrementAerodynamicCoefficientInterface 4 I
                  coefficientSettings body
              else if numberOfDimensions = 5 then
                createTabulatedControlSurfaceIncrementAerodynamicCoefficientInterface 5 I
                  coefficientSettings body
              else if numberOfDimensions = 6 then
                createTabulatedControlSurfaceIncrementAerodynamicCoefficientInterface 6 I
                  coefficientSettings body
              else Inl (UnsupportedDimensionality numberOfDimensions))
      | _ \<Rightarrow> Inl UnrecognizedSettings)"

text \<open>The loop over \<open>controlSurfaceSettings\<close> (a \<open>std::map\<close>, in key order): the first
  failing entry aborts the factory.\<close>

fun createControlSurfaceIncrementInterfaces ::
    "('t, 'i) Interpolators
      \<Rightarrow> (string \<times> ('t, 'i) ControlSurfaceIncrementAerodynamicCoefficientSettings) list \<Rightarrow> string
      \<Rightarrow> error + (string \<times> ControlSurfaceIncrementAerodynamicInterface) list" where
  "createControlSurfaceIncrementInterfaces I [] body = Inr []"
| "createControlSurfaceIncrementInterfaces I ((name, settings) # rest) body =
     (case createControlSurfaceIncrementAerodynamicCoefficientInterface I settings body of
        Inl e \<Rightarrow> Inl e
      | Inr interface \<Rightarrow>
          (case createControlSurfaceIncrementInterfaces I rest body of
             Inl e \<Rightarrow> Inl e
           | Inr interfaces \<Rightarrow> Inr ((name, interface) # interfaces)))"

text \<open>The first \<open>switch\<close> of \<open>createAerodynamicCoefficientInterface\<close>: the interface
  without its control-surface increments. \<open>numberOfDimensions\<close> is the number of names as
  an \<open>int\<close> (a list of names is far shorter than \<open>2^31\<close>).\<close>

definition createBaseCoefficientInterface ::
    "('t, 'i) Interpolators \<Rightarrow> ('t, 'i) AerodynamicCoefficientSettings \<Rightarrow> string
      \<Rightarrow> error + AerodynamicCoefficientInterface" where
  "createBaseCoefficientInterface I coefficientSettings body =
     (case aerodynamicCoefficientType coefficientSettings of
        constant_aerodynamic_coefficients \<Rightarrow>
          (case settingsClass coefficientSettings of
             ConstantAerodynamicCoefficientSettings constantForceCoefficient
                 constantMomentCoefficient \<Rightarrow>
               Inr (createConstantCoefficientAerodynamicCoefficientInterface
                      constantForceCoefficient constantMomentCoefficient
                      (referenceLength coefficientSettings)
                      (referenceArea coefficientSettings)
                      (referenceLength coefficientSettings)
                      (momentReferencePoint coefficientSettings)
                      (areCoefficientsInAerodynamicFrame coefficientSettings)
                      (areCoefficientsInNegativeAxisDirection coefficientSettings))
           | _ \<Rightarrow> Inl SettingsTypeMismatch)
      | tabulated_coefficients \<Rightarrow>
          (let numberOfDimensions = int (length (independentVariableNames coefficientSettings))
           in if numberOfDimensions = 1 then
                createUnivariateTabulatedCoefficientAerodynamicCoefficientInterface I
                  coefficientSettings body
              else if numberOfDimensions = 2 then
                createTabulatedCoefficientAerodynamicCoefficientInterface 2 I
                  coefficientSettings body
              else if numberOfDimensions = 3 then
                createTabulatedCoefficientAerodynamicCoefficientInterface 3 I
                  coefficientSettings body
              else if numberOfDimensions = 4 then
                createTabulatedCoefficientAerodynamicCoefficientInterface 4 I
                  coefficientSettings body
              else if numberOfDimensions = 5 then
                createTabulatedCoefficientAerodynamicCoefficientInterface 5 I
                  coefficientSettings body
              else if numberOfDimensions = 6 then
                createTabulatedCoefficientAerodynamicCoefficientInterface 6 I
                  coefficientSettings body
              else Inl (UnsupportedDimensionality numberOfDimensions))
      | _ \<Rightarrow> Inl UnrecognizedSettings)"

text \<open>\<open>createAerodynamicCoefficientInterface\<close>: the interface of the first \<open>switch\<close>, then
  the control-surface increments when the settings have any.\<close>

definition createAerodynamicCoefficientInterface ::
    "('t, 'i) Interpolators \<Rightarrow> ('t, 'i) AerodynamicCoefficientSettings \<Rightarrow> string
      \<Rightarrow> error + AerodynamicCoefficientInterface" where
  "createAerodynamicCoefficientInterface I coefficientSettings body =
     (case createBaseCoefficientInterface I coefficientSettings body of
        Inl e \<Rightarrow> Inl e
      | Inr coefficientInterface \<Rightarrow>
          if length (controlSurfaceSettings coefficientSettings) \<noteq> 0 then
            (case createControlSurfaceIncrementInterfaces I
                    (controlSurfaceSettings coefficientSettings) body of
               Inl e \<Rightarrow> Inl e
             | Inr interfaces \<Rightarrow>
                 Inr (coefficientInterface\<lparr> controlSurfaceIncrementInterfaces := interfaces \<rparr>))
          else Inr coefficientInterface)"

text \<open>
  \<open>readTabulatedAerodynamicCoefficientsFromFiles\<close> (force and moment files): the number
  of independent variables is read from the force file of key 0 and selects the reading
  template, which exists for 1, 2 and 3. The file inspection and the reading templates
  are parameters; \<open>args\<close> are the remaining arguments, passed on unchanged.
\<close>

definition readTabulatedAerodynamicCoefficientsFromFiles ::
    "(string \<Rightarrow> int)
      \<Rightarrow> (nat \<Rightarrow> (int \<times> string) list \<Rightarrow> (int \<times> string) list \<Rightarrow> 'args \<Rightarrow> error + 'settings)
      \<Rightarrow> (int \<times> string) list \<Rightarrow> (int \<times> string) list \<Rightarrow> 'args \<Rightarrow> error + 'settings" where
  "readTabulatedAerodynamicCoefficientsFromFiles
       getNumberOfIndependentVariablesInCoefficientFile
       readGivenSizeTabulatedAerodynamicCoefficientsFromFiles
       forceCoefficientFiles momentCoefficientFiles args =
     (case map_of forceCoefficientFiles 0 of
        None \<Rightarrow> Inl OutOfRange
      | Some file \<Rightarrow>
          (let numberOfIndependentVariables =
                 getNumberOfIndependentVariablesInCoefficientFile file
           in if numberOfIndependentVariables = 1 then
                readGivenSizeTabulatedAerodynamicCoefficientsFromFiles 1
                  forceCoefficientFiles momentCoefficientFiles args
              else if numberOfIndependentVariables = 2 then
                readGivenSizeTabulatedAerodynamicCoefficientsFromFiles 2
                  forceCoefficientFiles momentCoefficientFiles args
              else if numberOfIndependentVariables = 3 then
                readGivenSizeTabulatedAerodynamicCoefficientsFromFiles 3
                  forceCoefficientFiles momentCoefficientFiles args
              else Inl (UnsupportedDimensionality numberOfIndependentVariables)))"

section \<open>Concrete inputs\<close>

text \<open>A quarter turn about the third axis: a proper rotation.\<close>

definition quarterTurn :: Matrix3d where
  "quarterTurn = Matrix3 0 (-1) 0  1 0 0  0 0 1"

text \<open>
  A calculator that counts its updates and always reports the half turn about the
  first axis, with that rotation's quaternion; an angle function that returns the time
  as angle of attack; a sideslip-and-bank function; an ephemeris constructed with the
  angle function, the same one after a first \<open>update\<close> at time 5, and one constructed
  without an angle function.
\<close>

definition exampleCollaborators :: "nat Collaborators" where
  "exampleCollaborators =
     \<lparr> setAerodynamicAngleClosureIsIncomplete = (\<lambda>c. c),
       calculatorUpdate = (\<lambda>c t angles. Suc c),
       getRotationMatrixBetweenFrames = (\<lambda>c original target. Matrix3 1 0 0  0 (-1) 0  0 0 (-1)),
       quaternionOfMatrix = (\<lambda>m. Quaternion 0 1 0 0) \<rparr>"

definition exampleAngleFunction :: "double \<Rightarrow> Vector3d" where
  "exampleAngleFunction t = (case t of Finite r \<Rightarrow> Vector3 r 7 8 | NaN \<Rightarrow> Vector3 0 0 0)"

definition exampleSideslipBank :: "double \<Rightarrow> Vector2d" where
  "exampleSideslipBank t = (case t of Finite r \<Rightarrow> Vector2 (2 * r) (3 * r) | NaN \<Rightarrow> Vector2 0 0)"

definition exampleEphemeris :: "nat AerodynamicAngleRotationalEphemeris" where
  "exampleEphemeris =
     newAerodynamicAngleRotationalEphemeris exampleCollaborators 0
       (Some exampleAngleFunction) (Vector3 0 0 0)"

definition exampleEphemerisUpdated :: "nat AerodynamicAngleRotationalEphemeris" where
  "exampleEphemerisUpdated =
     \<lparr> aerodynamicAngleCalculator = 1,
       aerodynamicAngleFunction = Some exampleAngleFunction,
       currentBodyAngles = Vector3 5 7 8,
       currentTime = Finite 5,
       isBodyInPropagation = False,
       angleFunctionCalls = [Finite 5] \<rparr>"

definition exampleEphemerisWithoutAngles :: "nat AerodynamicAngleRotationalEphemeris" where
  "exampleEphemerisWithoutAngles =
     newAerodynamicAngleRotationalEphemeris exampleCollaborators 0 None (Vector3 0 0 0)"

text \<open>Three tables of shape \<open>[2, 3]\<close> and one of shape \<open>[3, 2]\<close>.\<close>

definition exampleX :: "real multi_array" where
  "exampleX = \<lparr> ma_shape = [2, 3], ma_data = [1, 2, 3, 4, 5, 6] \<rparr>"

definition exampleY :: "real multi_array" where
  "exampleY = \<lparr> ma_shape = [2, 3], ma_data = [10, 20, 30, 40, 50, 60] \<rparr>"

definition exampleZ :: "real multi_array" where
  "exampleZ = \<lparr> ma_shape = [2, 3], ma_data = [100, 200, 300, 400, 500, 600] \<rparr>"

definition exampleTransposedShape :: "real multi_array" where
  "exampleTransposedShape = \<lparr> ma_shape = [3, 2], ma_data = [100, 200, 300, 400, 500, 600] \<rparr>"

text \<open>A reader that knows three files: two tables over the same grid and one over a
  grid with another second breakpoint list.\<close>

definition exampleReader :: FileReader where
  "exampleReader fileName =
     (if fileName = ''Cx.dat''
      then Inr (\<lparr> ma_shape = [2, 2], ma_data = [1, 2, 3, 4] \<rparr>, [[0, 1], [0, 10]])
      else if fileName = ''Cz.dat''
      then Inr (\<lparr> ma_shape = [2, 2], ma_data = [5, 6, 7, 8] \<rparr>, [[0, 1], [0, 10]])
      else if fileName = ''Cshifted.dat''
      then Inr (\<lparr> ma_shape = [2, 2], ma_data = [9, 9, 9, 9] \<rparr>, [[0, 1], [0, 20]])
      else Inl ReadError)"

text \<open>Tables as breakpoint-value lists, with look-up at a breakpoint in the place of
  interpolation, and settings that declare one Mach-dependent table.\<close>

definition exampleInterpolators :: "((real list \<times> Vector3d) list, unit) Interpolators" where
  "exampleInterpolators =
     \<lparr> createOneDimensionalInterpolator =
         (\<lambda>table settings vars. case map_of table vars of Some v \<Rightarrow> v | None \<Rightarrow> Vector3 0 0 0),
       createMultiDimensionalInterpolator =
         (\<lambda>N table settings vars. case map_of table vars of Some v \<Rightarrow> v | None \<Rightarrow> Vector3 0 0 0) \<rparr>"

definition exampleForceTable :: "(real list \<times> Vector3d) list" where
  "exampleForceTable = [([0], Vector3 1 2 3), ([1], Vector3 4 5 6)]"

definition exampleMomentTable :: "(real list \<times> Vector3d) list" where
  "exampleMomentTable = [([0], Vector3 7 8 9), ([1], Vector3 10 11 12)]"

definition exampleSettings ::
    "((real list \<times> Vector3d) list, unit) AerodynamicCoefficientSettings" where
  "exampleSettings =
     \<lparr> aerodynamicCoefficientType = tabulated_coefficients,
       referenceLength = 2,
       referenceArea = 3,
       lateralReferenceLength = 4,
       momentReferencePoint = Vector3 0 0 0,
       independentVariableNames = [mach_number_dependent],
       areCoefficientsInAerodynamicFrame = True,
       areCoefficientsInNegativeAxisDirection = True,
       controlSurfaceSettings = [],
       settingsClass =
         TabulatedAerodynamicCoefficientSettings 1 exampleForceTable exampleMomentTable () \<rparr>"

text \<open>The same settings holding a two-dimensional table object, and declaring seven
  independent variables.\<close>

definition exampleSettingsOfOtherClass ::
    "((real list \<times> Vector3d) list, unit) AerodynamicCoefficientSettings" where
  "exampleSettingsOfOtherClass =
     exampleSettings\<lparr> settingsClass :=
       TabulatedAerodynamicCoefficientSettings 2 exampleForceTable exampleMomentTable () \<rparr>"

definition exampleSettingsOfSevenVariables ::
    "((real list \<times> Vector3d) list, unit) AerodynamicCoefficientSettings" where
  "exampleSettingsOfSevenVariables =
     exampleSettings\<lparr> independentVariableNames := replicate 7 mach_number_dependent \<rparr>"

section \<open>Frame kinematics: the round trip\<close>

text \<open>
  For every matrix \<open>R\<close>, reading the angular velocity off the transposed derivative gives
  \<open>det R\<close> times the angular velocity the derivative was made from: \<open>[R\<omega>]\<^sub>\<times> R\<close> is the
  cofactor matrix of \<open>R\<close> times \<open>[\<omega>]\<^sub>\<times>\<close>, and the transpose of \<open>R\<close> times its cofactor
  matrix is \<open>det R\<close> times the identity.
\<close>

lemma angular_velocity_of_transposed_derivative:
  "getRotationalVelocityVectorInBaseFrameFromMatrices R
     (mat_transpose (getDerivativeOfRotationMatrixToFrame R w))
   = Vector3 (mat_det R * vec_x w) (mat_det R * vec_y w) (mat_det R * vec_z w)"
  by (simp add: getRotationalVelocityVectorInBaseFrameFromMatrices_def
      getDerivativeOfRotationMatrixToFrame_def getCrossProductMatrix_def
      mat_mul_def mat_vec_def mat_neg_def mat_transpose_def mat_det_def Let_def
      algebra_simps)

lemma quarterTurn_rotation: "orthonormal quarterTurn \<and> mat_det quarterTurn = 1"
  by (simp add: orthonormal_def quarterTurn_def mat_mul_def mat_transpose_def
      Matrix3_Identity_def mat_det_def)

lemma quarterTurn_derivative:
  "getDerivativeOfRotationMatrixToFrame quarterTurn (Vector3 1 2 3)
     = Matrix3 3 0 (-1)  0 3 (-2)  2 (-1) 0"
  by (simp add: getDerivativeOfRotationMatrixToFrame_def getCrossProductMatrix_def
      mat_mul_def mat_vec_def mat_neg_def quarterTurn_def)

text \<open>
  C1, as the code has it. \<open>getRotationalVelocityVectorInBaseFrameFromMatrices\<close> takes the
  rotation to the target frame together with the derivative of the rotation to the
  global frame, which is the transpose of what \<open>getDerivativeOfRotationMatrixToFrame\<close>
  returns. For every rotation matrix \<open>R\<close> (of its properties only \<open>det R = 1\<close> is used) and
  every angular velocity \<open>\<omega>\<close>: the angular velocity read off \<open>R\<close> and the transposed
  derivative is \<open>\<omega>\<close> again, and the derivative made from it is the first derivative,
  exactly over the reals.
\<close>

theorem derivative_round_trip:
  assumes "mat_det R = 1"
  shows "getRotationalVelocityVectorInBaseFrameFromMatrices R
           (mat_transpose (getDerivativeOfRotationMatrixToFrame R w)) = w
       \<and> getDerivativeOfRotationMatrixToFrame R
           (getRotationalVelocityVectorInBaseFrameFromMatrices R
              (mat_transpose (getDerivativeOfRotationMatrixToFrame R w)))
         = getDerivativeOfRotationMatrixToFrame R w"
  using assms by (simp add: angular_velocity_of_transposed_derivative)

text \<open>The round trip at the quarter turn and \<open>\<omega> = (1, 2, 3)\<close>.\<close>

theorem derivative_round_trip_witness:
  "orthonormal quarterTurn \<and> mat_det quarterTurn = 1 \<and>
   getDerivativeOfRotationMatrixToFrame quarterTurn (Vector3 1 2 3)
     = Matrix3 3 0 (-1)  0 3 (-2)  2 (-1) 0 \<and>
   getRotationalVelocityVectorInBaseFrameFromMatrices quarterTurn
     (mat_transpose (Matrix3 3 0 (-1)  0 3 (-2)  2 (-1) 0)) = Vector3 1 2 3 \<and>
   getDerivativeOfRotationMatrixToFrame quarterTurn
     (getRotationalVelocityVectorInBaseFrameFromMatrices quarterTurn
        (mat_transpose (Matrix3 3 0 (-1)  0 3 (-2)  2 (-1) 0)))
   = Matrix3 3 0 (-1)  0 3 (-2)  2 (-1) 0"
  using derivative_round_trip [of quarterTurn "Vector3 1 2 3"] quarterTurn_rotation
  by (simp add: quarterTurn_derivative)

text \<open>
  C1 as stated composes the functions directly, the derivative going untransposed into
  \<open>getRotationalVelocityVectorInBaseFrameFromMatrices\<close>. At the identity rotation and
  \<open>\<omega> = (1, 0, 0)\<close> that returns \<open>-\<omega>\<close>, and the second derivative is the negative of the
  first.
\<close>

theorem direct_round_trip_counterexample:
  "orthonormal Matrix3_Identity \<and> mat_det Matrix3_Identity = 1 \<and>
   getDerivativeOfRotationMatrixToFrame Matrix3_Identity (Vector3 1 0 0)
     = Matrix3 0 0 0  0 0 1  0 (-1) 0 \<and>
   getRotationalVelocityVectorInBaseFrameFromMatrices Matrix3_Identity
     (getDerivativeOfRotationMatrixToFrame Matrix3_Identity (Vector3 1 0 0))
     = Vector3 (-1) 0 0 \<and>
   getDerivativeOfRotationMatrixToFrame Matrix3_Identity
     (getRotationalVelocityVectorInBaseFrameFromMatrices Matrix3_Identity
        (getDerivativeOfRotationMatrixToFrame Matrix3_Identity (Vector3 1 0 0)))
     = Matrix3 0 0 0  0 0 (-1)  0 1 0 \<and>
   getDerivativeOfRotationMatrixToFrame Matrix3_Identity
     (getRotationalVelocityVectorInBaseFrameFromMatrices Matrix3_Identity
        (getDerivativeOfRotationMatrixToFrame Matrix3_Identity (Vector3 1 0 0)))
   \<noteq> getDerivativeOfRotationMatrixToFrame Matrix3_Identity (Vector3 1 0 0)"
  by (simp add: orthonormal_def Matrix3_Identity_def mat_mul_def mat_transpose_def mat_det_def
      getDerivativeOfRotationMatrixToFrame_def
      getRotationalVelocityVectorInBaseFrameFromMatrices_def
      getCrossProductMatrix_def mat_vec_def mat_neg_def)

section \<open>The aerodynamic-angle ephemeris\<close>

text \<open>
  C2, as the code has it: for every time, both derivative queries return normally, and
  what they return is the matrix whose nine coefficients are NaN. No error is raised.
\<close>

theorem derivative_queries_return_nan:
  "getDerivativeOfRotationToBaseFrame t = Inr (Matrix3 NaN NaN NaN  NaN NaN NaN  NaN NaN NaN) \<and>
   getDerivativeOfRotationToTargetFrame t = Inr (Matrix3 NaN NaN NaN  NaN NaN NaN  NaN NaN NaN)"
  by (simp add: getDerivativeOfRotationToBaseFrame_def getDerivativeOfRotationToTargetFrame_def
      TUDAT_NAN_def Matrix3_Constant_def)

text \<open>C2 as stated asks for an \<open>UnsupportedOperation\<close> failure; at time 0 neither query
  fails, each returns the NaN placeholder.\<close>

theorem derivative_query_counterexample:
  "getDerivativeOfRotationToBaseFrame (Finite 0) \<noteq> Inl UnsupportedOperation \<and>
   getDerivativeOfRotationToBaseFrame (Finite 0) = Inr (Matrix3_Constant TUDAT_NAN) \<and>
   getDerivativeOfRotationToTargetFrame (Finite 0) \<noteq> Inl UnsupportedOperation \<and>
   getDerivativeOfRotationToTargetFrame (Finite 0) = Inr (Matrix3_Constant TUDAT_NAN)"
  by (simp add: getDerivativeOfRotationToBaseFrame_def getDerivativeOfRotationToTargetFrame_def)

text \<open>Eigen's quaternion inverse is an involution, the zero quaternion included.\<close>

lemma quat_inverse_involution: "quat_inverse (quat_inverse q) = q"
proof (cases q)
  case (Quaternion a b c d)
  define n where "n = a * a + b * b + c * c + d * d"
  have sn: "squaredNorm q = n"
    by (simp add: Quaternion squaredNorm_def n_def)
  show ?thesis
  proof (cases "n > 0")
    case True
    have inv: "quat_inverse q = Quaternion (a / n) (- b / n) (- c / n) (- d / n)"
      using True sn by (simp add: quat_inverse_def Quaternion)
    have "squaredNorm (Quaternion (a / n) (- b / n) (- c / n) (- d / n))
            = (a * a + b * b + c * c + d * d) / (n * n)"
      by (simp add: squaredNorm_def add_divide_distrib)
    also have "\<dots> = 1 / n"
      using True by (simp add: n_def [symmetric])
    finally have sq: "squaredNorm (Quaternion (a / n) (- b / n) (- c / n) (- d / n)) = 1 / n" .
    have "quat_inverse (Quaternion (a / n) (- b / n) (- c / n) (- d / n)) = Quaternion a b c d"
      unfolding quat_inverse_def sq Let_def using True by simp
    then show ?thesis
      unfolding inv by (simp add: Quaternion)
  next
    case False
    have "0 \<le> n" by (simp add: n_def)
    with False have "n = 0" by simp
    moreover have "0 \<le> a * a + b * b" "0 \<le> c * c + d * d"
      by simp_all
    ultimately have "a * a + b * b = 0 \<and> c * c + d * d = 0"
      unfolding n_def by linarith
    then have "a = 0 \<and> b = 0 \<and> c = 0 \<and> d = 0"
      by (simp add: sum_squares_eq_zero_iff)
    then show ?thesis
      by (simp add: Quaternion quat_inverse_def squaredNorm_def)
  qed
qed

text \<open>Once an update at a time (not NaN) has succeeded, the next update at that time
  finds the time cached and changes nothing.\<close>

lemma update_idempotent:
  assumes "t \<noteq> NaN" "update E t s = Inr s'"
  shows "update E t s' = Inr s'"
proof (cases "double_eq t (currentTime s)")
  case True
  with assms(2) show ?thesis by (simp add: update_def)
next
  case False
  with assms(2) have "currentTime s' = t"
    by (auto simp: update_def Let_def split: option.splits)
  moreover have "double_eq t t"
    using assms(1) by (cases t) simp_all
  ultimately show ?thesis by (simp add: update_def)
qed

text \<open>
  C6: for every time and every state of the ephemeris, \<open>getRotationToTargetFrame\<close> fails
  exactly when \<open>getRotationToBaseFrame\<close> fails, with the same error, and otherwise returns
  the inverse of its quaternion and leaves the same state; and the inverse of what
  \<open>getRotationToTargetFrame\<close> returns is what \<open>getRotationToBaseFrame\<close> returns.
  (\<open>map_sum id (apfst quat_inverse)\<close> inverts the quaternion of a result and keeps an
  error and the state.) The two queries also agree when made one after the other: in the
  state that a successful query at a time \<open>t\<close> leaves behind, \<open>getRotationToBaseFrame\<close> at
  \<open>t\<close> returns the same quaternion again and \<open>getRotationToTargetFrame\<close> its inverse.
\<close>

theorem target_rotation_is_inverse:
  "getRotationToTargetFrame E t s
     = map_sum id (apfst quat_inverse) (getRotationToBaseFrame E t s)
 \<and> map_sum id (apfst quat_inverse) (getRotationToTargetFrame E t s)
     = getRotationToBaseFrame E t s
 \<and> (t \<noteq> NaN \<and> getRotationToBaseFrame E t s = Inr (q, s') \<longrightarrow>
      getRotationToBaseFrame E t s' = Inr (q, s') \<and>
      getRotationToTargetFrame E t s' = Inr (quat_inverse q, s'))"
proof (intro conjI impI)
  show "getRotationToTargetFrame E t s
          = map_sum id (apfst quat_inverse) (getRotationToBaseFrame E t s)"
    by (auto simp: getRotationToTargetFrame_def split: sum.splits)
  show "map_sum id (apfst quat_inverse) (getRotationToTargetFrame E t s)
          = getRotationToBaseFrame E t s"
    by (auto simp: getRotationToTargetFrame_def quat_inverse_involution split: sum.splits)
next
  assume a: "t \<noteq> NaN \<and> getRotationToBaseFrame E t s = Inr (q, s')"
  then have u: "update E t s = Inr s'"
    and q: "q = quaternionOfMatrix E
                  (getRotationMatrixBetweenFrames E (aerodynamicAngleCalculator s')
                     body_frame inertial_frame)"
    by (auto simp: getRotationToBaseFrame_def split: sum.splits)
  have "update E t s' = Inr s'"
    using a u by (intro update_idempotent [of t E s]) simp_all
  then show base: "getRotationToBaseFrame E t s' = Inr (q, s')"
    by (simp add: getRotationToBaseFrame_def q)
  then show "getRotationToTargetFrame E t s' = Inr (quat_inverse q, s')"
    by (simp add: getRotationToTargetFrame_def)
qed

lemma exampleEphemeris_update:
  "update exampleCollaborators (Finite 5) exampleEphemeris = Inr exampleEphemerisUpdated"
  by (simp add: update_def exampleEphemeris_def newAerodynamicAngleRotationalEphemeris_def
      exampleCollaborators_def exampleAngleFunction_def TUDAT_NAN_def
      exampleEphemerisUpdated_def)

text \<open>The two rotations of the example ephemeris at time 5, asked of the fresh
  ephemeris and asked again afterwards.\<close>

theorem target_rotation_is_inverse_witness:
  "getRotationToBaseFrame exampleCollaborators (Finite 5) exampleEphemeris
     = Inr (Quaternion 0 1 0 0, exampleEphemerisUpdated) \<and>
   getRotationToTargetFrame exampleCollaborators (Finite 5) exampleEphemeris
     = Inr (Quaternion 0 (-1) 0 0, exampleEphemerisUpdated) \<and>
   Finite 5 \<noteq> NaN \<and>
   getRotationToBaseFrame exampleCollaborators (Finite 5) exampleEphemerisUpdated
     = Inr (Quaternion 0 1 0 0, exampleEphemerisUpdated) \<and>
   getRotationToTargetFrame exampleCollaborators (Finite 5) exampleEphemerisUpdated
     = Inr (Quaternion 0 (-1) 0 0, exampleEphemerisUpdated)"
proof -
  have base: "getRotationToBaseFrame exampleCollaborators (Finite 5) exampleEphemeris
                = Inr (Quaternion 0 1 0 0, exampleEphemerisUpdated)"
    by (simp add: getRotationToBaseFrame_def exampleEphemeris_update)
       (simp add: exampleCollaborators_def)
  have inv: "quat_inverse (Quaternion 0 1 0 0) = Quaternion 0 (-1) 0 0"
    by (simp add: quat_inverse_def squaredNorm_def)
  show ?thesis
    using target_rotation_is_inverse [where E = exampleCollaborators and t = "Finite 5"
        and s = exampleEphemeris and q = "Quaternion 0 1 0 0" and s' = exampleEphemerisUpdated]
    by (simp add: base inv)
qed

text \<open>
  C7: an \<open>update\<close> at a time that compares equal to the cached time returns the state as
  it is, the list of angle-function invocations included. Hence from a state with an
  angle function and another cached time, two consecutive updates at the same time
  \<open>t\<close> (a time, not the NaN that stands for "no time") both succeed, the second changes
  nothing, and together they invoke the angle function exactly once, at \<open>t\<close>.
\<close>

theorem update_memoized:
  "(double_eq t (currentTime s) \<longrightarrow> update E t s = Inr s) \<and>
   (t \<noteq> NaN \<and> \<not> double_eq t (currentTime s) \<and> aerodynamicAngleFunction s = Some f \<longrightarrow>
      (\<exists>s1. update E t s = Inr s1 \<and> update E t s1 = Inr s1 \<and>
            angleFunctionCalls s1 = angleFunctionCalls s @ [t]))"
  by (cases t) (auto simp: update_def Let_def)

text \<open>A fresh ephemeris updated twice at time 5: one invocation.\<close>

theorem update_memoized_witness:
  "double_eq (Finite 5) (currentTime exampleEphemerisUpdated) \<and>
   update exampleCollaborators (Finite 5) exampleEphemerisUpdated = Inr exampleEphemerisUpdated \<and>
   Finite 5 \<noteq> NaN \<and> \<not> double_eq (Finite 5) (currentTime exampleEphemeris) \<and>
   aerodynamicAngleFunction exampleEphemeris = Some exampleAngleFunction \<and>
   angleFunctionCalls exampleEphemeris = [] \<and>
   (\<exists>s1. update exampleCollaborators (Finite 5) exampleEphemeris = Inr s1 \<and>
         update exampleCollaborators (Finite 5) s1 = Inr s1 \<and>
         angleFunctionCalls s1 = [Finite 5])"
proof -
  have a: "double_eq (Finite 5) (currentTime exampleEphemerisUpdated)"
    by (simp add: exampleEphemerisUpdated_def)
  have b: "Finite 5 \<noteq> NaN \<and> \<not> double_eq (Finite 5) (currentTime exampleEphemeris) \<and>
           aerodynamicAngleFunction exampleEphemeris = Some exampleAngleFunction \<and>
           angleFunctionCalls exampleEphemeris = []"
    by (simp add: exampleEphemeris_def newAerodynamicAngleRotationalEphemeris_def TUDAT_NAN_def)
  show ?thesis
    using a b
      update_memoized [where t = "Finite 5" and s = exampleEphemerisUpdated
        and E = exampleCollaborators]
      update_memoized [where t = "Finite 5" and s = exampleEphemeris
        and E = exampleCollaborators and f = exampleAngleFunction]
    by simp
qed

text \<open>
  C10: after \<open>addSideslipBankAngleFunctions g\<close> an angle function is registered. If none
  was registered before, it returns at every time the angle of attack 0 followed by the
  two angles of \<open>g\<close>; if \<open>f\<close> was registered, it returns the angle of attack of \<open>f\<close> (its
  entry 0) followed by the two angles of \<open>g\<close>.
\<close>

theorem sideslip_bank_keeps_angle_of_attack:
  "(aerodynamicAngleFunction s = None \<longrightarrow>
      (\<exists>h. aerodynamicAngleFunction (addSideslipBankAngleFunctions g s) = Some h \<and>
           (\<forall>t. h t = Vector3 0 (vec2_0 (g t)) (vec2_1 (g t))))) \<and>
   (\<forall>f. aerodynamicAngleFunction s = Some f \<longrightarrow>
      (\<exists>h. aerodynamicAngleFunction (addSideslipBankAngleFunctions g s) = Some h \<and>
           (\<forall>t. h t = Vector3 (vec_x (f t)) (vec2_0 (g t)) (vec2_1 (g t)))))"
  by (simp add: addSideslipBankAngleFunctions_def)

text \<open>Both cases at time 3, where the example angle function has angle of attack 3 and
  the example sideslip and bank angles are 6 and 9.\<close>

theorem sideslip_bank_keeps_angle_of_attack_witness:
  "aerodynamicAngleFunction exampleEphemerisWithoutAngles = None \<and>
   (\<exists>h. aerodynamicAngleFunction
          (addSideslipBankAngleFunctions exampleSideslipBank exampleEphemerisWithoutAngles)
          = Some h \<and> h (Finite 3) = Vector3 0 6 9) \<and>
   aerodynamicAngleFunction exampleEphemeris = Some exampleAngleFunction \<and>
   exampleAngleFunction (Finite 3) = Vector3 3 7 8 \<and>
   (\<exists>h. aerodynamicAngleFunction
          (addSideslipBankAngleFunctions exampleSideslipBank exampleEphemeris)
          = Some h \<and> h (Finite 3) = Vector3 3 6 9)"
proof -
  have a: "aerodynamicAngleFunction exampleEphemerisWithoutAngles = None"
    by (simp add: exampleEphemerisWithoutAngles_def newAerodynamicAngleRotationalEphemeris_def)
  have b: "aerodynamicAngleFunction exampleEphemeris = Some exampleAngleFunction"
    by (simp add: exampleEphemeris_def newAerodynamicAngleRotationalEphemeris_def)
  have c: "exampleAngleFunction (Finite 3) = Vector3 3 7 8"
          "exampleSideslipBank (Finite 3) = Vector2 6 9"
    by (simp_all add: exampleAngleFunction_def exampleSideslipBank_def)
  from a sideslip_bank_keeps_angle_of_attack [of exampleEphemerisWithoutAngles exampleSideslipBank]
  obtain h0 where h0:
    "aerodynamicAngleFunction
       (addSideslipBankAngleFunctions exampleSideslipBank exampleEphemerisWithoutAngles) = Some h0"
    "\<forall>t. h0 t = Vector3 0 (vec2_0 (exampleSideslipBank t)) (vec2_1 (exampleSideslipBank t))"
    by blast
  from b sideslip_bank_keeps_angle_of_attack [of exampleEphemeris exampleSideslipBank]
  obtain h1 where h1:
    "aerodynamicAngleFunction
       (addSideslipBankAngleFunctions exampleSideslipBank exampleEphemeris) = Some h1"
    "\<forall>t. h1 t = Vector3 (vec_x (exampleAngleFunction t))
                   (vec2_0 (exampleSideslipBank t)) (vec2_1 (exampleSideslipBank t))"
    by blast
  have "h0 (Finite 3) = Vector3 0 6 9" using h0(2) c by simp
  moreover have "h1 (Finite 3) = Vector3 3 6 9" using h1(2) c by simp
  ultimately show ?thesis
    using a b c h0(1) h1(1) by simp
qed

section \<open>Merging the component tables\<close>

text \<open>The multi-index that \<open>getMultiArrayIndexArray\<close> computes, dimension by dimension.\<close>

lemma map_nth_pair:
  "length xs = length ys \<Longrightarrow> map (\<lambda>i. f (xs ! i) (ys ! i)) [0..<length xs] = map2 f xs ys"
  by (rule nth_equalityI) simp_all

lemma length_strides_of [simp]: "length (strides_of sh) = length sh"
  by (induction sh) simp_all

lemma getMultiArrayIndexArray_map2:
  assumes "length (ma_shape m) = N"
  shows "getMultiArrayIndexArray N m p
           = map2 (\<lambda>s d. p div s mod d) (strides_of (ma_shape m)) (ma_shape m)"
proof -
  have "getMultiArrayIndexArray N m p
          = map (\<lambda>i. p div (strides_of (ma_shape m) ! i) mod (ma_shape m ! i))
                [0..<length (strides_of (ma_shape m))]"
    using assms
    by (simp add: getMultiArrayIndexArray_def getIndex_def strides_def index_bases_def)
  also have "\<dots> = map2 (\<lambda>s d. p div s mod d) (strides_of (ma_shape m)) (ma_shape m)"
    by (rule map_nth_pair) simp
  finally show ?thesis .
qed

text \<open>The offset of the multi-index of an offset is that offset, reduced modulo the
  number of elements: the mixed-radix digits of a number give the number back.\<close>

lemma offset_of_index_of:
  "sum_list (map2 (*) (map2 (\<lambda>s d. p div s mod d) (strides_of sh) sh) (strides_of sh))
     = p mod prod_list sh"
proof (induction sh)
  case Nil
  show ?case by simp
next
  case (Cons d ds)
  have "p mod (prod_list ds * d) = prod_list ds * (p div prod_list ds mod d) + p mod prod_list ds"
    by (rule mod_mult2_eq)
  with Cons show ?case
    by (simp add: mult.commute)
qed

text \<open>A multi-index within the extents addresses an element of the array.\<close>

lemma offset_in_range:
  "list_all2 (<) index sh \<Longrightarrow> sum_list (map2 (*) index (strides_of sh)) < prod_list sh"
proof (induction index sh rule: list_all2_induct)
  case Nil
  show ?case by simp
next
  case (Cons i index d sh)
  let ?P = "prod_list sh"
  let ?r = "sum_list (map2 (*) index (strides_of sh))"
  have "i * ?P + ?r < i * ?P + ?P" using Cons.IH by simp
  also have "\<dots> = Suc i * ?P" by simp
  also have "\<dots> \<le> d * ?P" using Cons.hyps(1) by (intro mult_le_mono1) simp
  finally show ?case by simp
qed

lemma element_offset_getMultiArrayIndexArray:
  assumes "length (ma_shape x) = N" "ma_shape y = ma_shape x" "p < prod_list (ma_shape x)"
  shows "element_offset y (getMultiArrayIndexArray N x p) = p"
proof -
  have "element_offset y (getMultiArrayIndexArray N x p)
          = sum_list (map2 (*) (map2 (\<lambda>s d. p div s mod d) (strides_of (ma_shape x)) (ma_shape x))
                               (strides_of (ma_shape x)))"
    by (simp only: element_offset_def strides_def getMultiArrayIndexArray_map2 [OF assms(1)]
        assms(2))
  also have "\<dots> = p mod prod_list (ma_shape x)"
    by (rule offset_of_index_of)
  also have "\<dots> = p"
    using assms(3) by simp
  finally show ?thesis .
qed

text \<open>The consistency loop finds a difference exactly when the shapes are not all equal.\<close>

lemma shapes_checked:
  fixes sx sy sz :: "nat list"
  assumes "length sx = N" "length sy = N" "length sz = N"
  shows "list_ex (\<lambda>i. \<not> (sx ! i = sy ! i) \<or> \<not> (sx ! i = sz ! i)) [0..<N]
           \<longleftrightarrow> \<not> (sx = sy \<and> sx = sz)"
proof -
  have "sx = sy \<longleftrightarrow> (\<forall>i<N. sx ! i = sy ! i)"
    using assms by (simp add: list_eq_iff_nth_eq [of sx sy])
  moreover have "sx = sz \<longleftrightarrow> (\<forall>i<N. sx ! i = sz ! i)"
    using assms by (simp add: list_eq_iff_nth_eq [of sx sz])
  ultimately show ?thesis
    by (auto simp: list_ex_iff)
qed

text \<open>With equal shapes the merge is the element-wise combination in storage order.\<close>

lemma merge_result:
  assumes "length (ma_shape x) = N" "ma_shape y = ma_shape x" "ma_shape z = ma_shape x"
  shows "mergeNDimensionalCoefficients N x y z =
           Inr \<lparr> ma_shape = ma_shape x,
                 ma_data = map (\<lambda>p. Vector3 (ma_data x ! p) (ma_data y ! p) (ma_data z ! p))
                               [0..<prod_list (ma_shape x)] \<rparr>"
proof -
  have chk: "\<not> list_ex (\<lambda>i. \<not> (ma_shape x ! i = ma_shape y ! i) \<or>
                            \<not> (ma_shape x ! i = ma_shape z ! i)) [0..<N]"
    using assms by (simp add: list_ex_iff)
  have "map (\<lambda>p. let index = getMultiArrayIndexArray N x p
                  in Vector3 (element_at x index) (element_at y index) (element_at z index))
            [0..<prod_list (ma_shape x)]
        = map (\<lambda>p. Vector3 (ma_data x ! p) (ma_data y ! p) (ma_data z ! p))
              [0..<prod_list (ma_shape x)]"
    using assms
    by (intro map_cong refl)
       (simp add: Let_def element_at_def element_offset_getMultiArrayIndexArray)
  with chk show ?thesis
    by (simp add: mergeNDimensionalCoefficients_def num_elements_def Let_def)
qed

text \<open>
  C4: for three well-formed \<open>N\<close>-dimensional tables. If their shapes are equal, the merge
  returns a well-formed table of that shape whose element at every multi-index is the
  vector of the three elements at that multi-index. If the shapes are not all equal, it
  fails (with the "input sizes are inconsistent" error) and returns no table.
\<close>

theorem merge_elementwise:
  assumes "wellformed N x" "wellformed N y" "wellformed N z"
  shows "(ma_shape x = ma_shape y \<and> ma_shape x = ma_shape z \<longrightarrow>
            (\<exists>m. mergeNDimensionalCoefficients N x y z = Inr m \<and>
                 wellformed N m \<and> ma_shape m = ma_shape x \<and>
                 (\<forall>index. valid_index m index \<longrightarrow>
                    element_at m index =
                      Vector3 (element_at x index) (element_at y index) (element_at z index))))
       \<and> (\<not> (ma_shape x = ma_shape y \<and> ma_shape x = ma_shape z) \<longrightarrow>
            mergeNDimensionalCoefficients N x y z = Inl InconsistentInputSizes)"
proof (intro conjI impI)
  assume same: "ma_shape x = ma_shape y \<and> ma_shape x = ma_shape z"
  let ?m = "\<lparr> ma_shape = ma_shape x,
               ma_data = map (\<lambda>p. Vector3 (ma_data x ! p) (ma_data y ! p) (ma_data z ! p))
                             [0..<prod_list (ma_shape x)] \<rparr>"
  have N: "length (ma_shape x) = N" using assms(1) by (simp add: wellformed_def)
  have ys: "ma_shape y = ma_shape x" and zs: "ma_shape z = ma_shape x"
    using same by auto
  have res: "mergeNDimensionalCoefficients N x y z = Inr ?m"
    by (rule merge_result [OF N ys zs])
  have wf: "wellformed N ?m" using N by (simp add: wellformed_def)
  have elems: "element_at ?m index =
                 Vector3 (element_at x index) (element_at y index) (element_at z index)"
    if "valid_index ?m index" for index
  proof -
    have "sum_list (map2 (*) index (strides_of (ma_shape x))) < prod_list (ma_shape x)"
      using that by (simp add: valid_index_def offset_in_range)
    then show ?thesis
      by (simp add: element_at_def element_offset_def strides_def ys zs)
  qed
  show "\<exists>m. mergeNDimensionalCoefficients N x y z = Inr m \<and>
            wellformed N m \<and> ma_shape m = ma_shape x \<and>
            (\<forall>index. valid_index m index \<longrightarrow>
               element_at m index =
                 Vector3 (element_at x index) (element_at y index) (element_at z index))"
    using res wf elems by (intro exI [of _ ?m]) simp
next
  assume diff: "\<not> (ma_shape x = ma_shape y \<and> ma_shape x = ma_shape z)"
  have "list_ex (\<lambda>i. \<not> (ma_shape x ! i = ma_shape y ! i) \<or>
                      \<not> (ma_shape x ! i = ma_shape z ! i)) [0..<N]"
    using assms diff shapes_checked [of "ma_shape x" N "ma_shape y" "ma_shape z"]
    by (simp add: wellformed_def)
  then show "mergeNDimensionalCoefficients N x y z = Inl InconsistentInputSizes"
    by (simp add: mergeNDimensionalCoefficients_def)
qed

text \<open>Three tables of shape \<open>[2, 3]\<close> merge; the element at \<open>[1, 2]\<close> is made of the three
  last elements. With a table of shape \<open>[3, 2]\<close> in the third place the merge fails.\<close>

theorem merge_elementwise_witness:
  "wellformed 2 exampleX \<and> wellformed 2 exampleY \<and> wellformed 2 exampleZ \<and>
   wellformed 2 exampleTransposedShape \<and>
   (\<exists>m. mergeNDimensionalCoefficients 2 exampleX exampleY exampleZ = Inr m \<and>
        ma_shape m = [2, 3] \<and> element_at m [1, 2] = Vector3 6 60 600) \<and>
   mergeNDimensionalCoefficients 2 exampleX exampleY exampleTransposedShape
     = Inl InconsistentInputSizes"
proof -
  have wf: "wellformed 2 exampleX" "wellformed 2 exampleY" "wellformed 2 exampleZ"
    "wellformed 2 exampleTransposedShape"
    by (simp_all add: wellformed_def exampleX_def exampleY_def exampleZ_def
        exampleTransposedShape_def)
  have same: "ma_shape exampleX = ma_shape exampleY \<and> ma_shape exampleX = ma_shape exampleZ"
    by (simp add: exampleX_def exampleY_def exampleZ_def)
  have diff: "\<not> (ma_shape exampleX = ma_shape exampleY \<and>
                 ma_shape exampleX = ma_shape exampleTransposedShape)"
    by (simp add: exampleX_def exampleTransposedShape_def)
  from merge_elementwise [OF wf(1,2,3)] same obtain m where
    m: "mergeNDimensionalCoefficients 2 exampleX exampleY exampleZ = Inr m"
       "ma_shape m = ma_shape exampleX"
       "\<forall>index. valid_index m index \<longrightarrow>
          element_at m index = Vector3 (element_at exampleX index) (element_at exampleY index)
                                       (element_at exampleZ index)"
    by blast
  have "valid_index m [1, 2]"
    using m(2) by (simp add: valid_index_def exampleX_def)
  with m(3) have "element_at m [1, 2] =
      Vector3 (element_at exampleX [1, 2]) (element_at exampleY [1, 2])
              (element_at exampleZ [1, 2])"
    by blast
  also have "\<dots> = Vector3 6 60 600"
    by (simp add: element_at_def element_offset_def strides_def exampleX_def exampleY_def
        exampleZ_def)
  finally have e: "element_at m [1, 2] = Vector3 6 60 600" .
  have f: "mergeNDimensionalCoefficients 2 exampleX exampleY exampleTransposedShape
             = Inl InconsistentInputSizes"
    using merge_elementwise [OF wf(1,2,4)] diff by blast
  show ?thesis
    using wf m(1,2) e f by (auto simp: exampleX_def)
qed

section \<open>Reading the component tables\<close>

text \<open>Once a table has been read, a later table over other independent variables stops
  the loop.\<close>

lemma readLoop_inconsistent:
  assumes "raw \<noteq> []"
      and "\<forall>(k, f) \<in> set fs. \<exists>a iv. reader f = Inr (a, iv)"
      and "\<exists>(k, f) \<in> set fs. \<exists>a iv. reader f = Inr (a, iv) \<and> iv \<noteq> iv0"
  shows "readLoop reader fs (raw, iv0) = Inl InconsistentIndependentVariables"
  using assms
proof (induction fs arbitrary: raw)
  case Nil
  then show ?case by simp
next
  case (Cons kf fs)
  obtain k f where kf: "kf = (k, f)" by (cases kf)
  obtain a iv where r: "reader f = Inr (a, iv)"
    using Cons.prems(2) kf by auto
  show ?case
  proof (cases "iv = iv0")
    case False
    then show ?thesis
      using Cons.prems(1) r by (simp add: kf compareIndependentVariables_def)
  next
    case True
    have "\<exists>(k, f) \<in> set fs. \<exists>a iv. reader f = Inr (a, iv) \<and> iv \<noteq> iv0"
      using Cons.prems(3) True r kf by auto
    moreover have "\<forall>(k, f) \<in> set fs. \<exists>a iv. reader f = Inr (a, iv)"
      using Cons.prems(2) by simp
    ultimately have "readLoop reader fs (raw @ [(k, a)], iv0) = Inl InconsistentIndependentVariables"
      by (intro Cons.IH) simp_all
    then show ?thesis
      using Cons.prems(1) r True by (simp add: kf compareIndependentVariables_def)
  qed
qed

text \<open>
  C5: let the file-name map have a first entry whose table is read with independent
  variables \<open>iv0\<close>, and let every later file be readable. If the independent variables of
  some later table differ from \<open>iv0\<close>, \<open>readAerodynamicCoefficients\<close> fails with the
  inconsistent-independent-variables error and returns no merged table.
\<close>

theorem inconsistent_independent_variables_rejected:
  assumes "fileNames = (k0, f0) # rest"
      and "reader f0 = Inr (a0, iv0)"
      and "\<forall>(k, f) \<in> set rest. \<exists>a iv. reader f = Inr (a, iv)"
      and "\<exists>(k, f) \<in> set rest. \<exists>a iv. reader f = Inr (a, iv) \<and> iv \<noteq> iv0"
  shows "readAerodynamicCoefficients N reader fileNames = Inl InconsistentIndependentVariables"
proof -
  have "readLoop reader rest ([] @ [(k0, a0)], iv0) = Inl InconsistentIndependentVariables"
    using assms(3,4) by (intro readLoop_inconsistent) simp_all
  then show ?thesis
    using assms(1,2) by (simp add: readAerodynamicCoefficients_def)
qed

text \<open>The x table over the grid \<open>[[0, 1], [0, 10]]\<close>, then a y table over
  \<open>[[0, 1], [0, 20]]\<close>.\<close>

theorem inconsistent_independent_variables_rejected_witness:
  "exampleReader ''Cx.dat''
     = Inr (\<lparr> ma_shape = [2, 2], ma_data = [1, 2, 3, 4] \<rparr>, [[0, 1], [0, 10]]) \<and>
   exampleReader ''Cshifted.dat''
     = Inr (\<lparr> ma_shape = [2, 2], ma_data = [9, 9, 9, 9] \<rparr>, [[0, 1], [0, 20]]) \<and>
   readAerodynamicCoefficients 2 exampleReader [(0, ''Cx.dat''), (1, ''Cshifted.dat'')]
     = Inl InconsistentIndependentVariables"
proof -
  have x: "exampleReader ''Cx.dat''
             = Inr (\<lparr> ma_shape = [2, 2], ma_data = [1, 2, 3, 4] \<rparr>, [[0, 1], [0, 10]])"
    by (simp add: exampleReader_def)
  have s: "exampleReader ''Cshifted.dat''
             = Inr (\<lparr> ma_shape = [2, 2], ma_data = [9, 9, 9, 9] \<rparr>, [[0, 1], [0, 20]])"
    by (simp add: exampleReader_def)
  have "readAerodynamicCoefficients 2 exampleReader [(0, ''Cx.dat''), (1, ''Cshifted.dat'')]
          = Inl InconsistentIndependentVariables"
    by (rule inconsistent_independent_variables_rejected
          [where ?k0.0 = 0 and ?f0.0 = "''Cx.dat''" and rest = "[(1, ''Cshifted.dat'')]"
             and ?a0.0 = "\<lparr> ma_shape = [2, 2], ma_data = [1, 2, 3, 4] \<rparr>"
             and ?iv0.0 = "[[0, 1], [0, 10]]"])
       (simp_all add: x s)
  with x s show ?thesis by simp
qed

text \<open>What a successful reading loop has collected: one table per file, under the
  file's key and in the order of the files.\<close>

lemma readLoop_success:
  assumes "readLoop reader fs (raw, iv) = Inr (raw', iv')"
  shows "\<exists>new. raw' = raw @ new \<and>
           list_all2 (\<lambda>(k, f) (k', a). k' = k \<and> (\<exists>ivf. reader f = Inr (a, ivf))) fs new"
  using assms
proof (induction fs arbitrary: raw iv)
  case Nil
  then show ?case by simp
next
  case (Cons kf fs)
  obtain k f where kf: "kf = (k, f)" by (cases kf)
  from Cons.prems obtain a ivf where r: "reader f = Inr (a, ivf)"
    by (cases "reader f") (auto simp: kf)
  from Cons.prems r obtain iv1 where
    "readLoop reader fs (raw @ [(k, a)], iv1) = Inr (raw', iv')"
    by (auto simp: kf split: if_splits)
  from Cons.IH [OF this] obtain new where
    new: "raw' = (raw @ [(k, a)]) @ new"
         "list_all2 (\<lambda>(k, f) (k', a). k' = k \<and> (\<exists>ivf. reader f = Inr (a, ivf))) fs new"
    by blast
  show ?case
    using new r by (intro exI [of _ "(k, a) # new"]) (simp add: kf)
qed

lemma map_of_None_keys:
  assumes "list_all2 (\<lambda>(k, f) (k', a). k' = k \<and> P f a) fs raw"
  shows "map_of raw key = None \<longleftrightarrow> map_of fs key = None"
  using assms by (induction fs raw rule: list_all2_induct) auto

lemma zero_filled_nth:
  "p < prod_list sh \<Longrightarrow> ma_data (zero_filled sh) ! p = 0"
  by (simp add: zero_filled_def)

lemma readAerodynamicCoefficients_unfold:
  "readAerodynamicCoefficients N reader fileNames =
     (case readLoop reader fileNames ([], []) of
        Inl e \<Rightarrow> Inl e
      | Inr (raw, iv) \<Rightarrow>
          if raw = [] then Inl NoFilesRead
          else (case mergeNDimensionalCoefficients N
                       (componentArray raw 0) (componentArray raw 1) (componentArray raw 2) of
                  Inl e \<Rightarrow> Inl e
                | Inr merged \<Rightarrow> Inr (merged, iv)))"
proof -
  have "map f [0..<3] = [f 0, f 1, f 2]" for f :: "nat \<Rightarrow> real multi_array"
    by (simp add: numeral_3_eq_3 numeral_2_eq_2 upt_rec)
  then show ?thesis
    by (simp add: readAerodynamicCoefficients_def Let_def split: sum.splits prod.splits)
qed

text \<open>
  C9: let every table the reader returns for a file of the map have \<open>N\<close> dimensions (as
  the type of \<open>MultiArrayFileReader< N >\<close> says). With the empty map the call fails ("no
  files read"). For every axis \<open>i\<close> of 0, 1, 2 without an entry in the map: once the files
  have been read, the component array of that axis is the zero-filled array of the shape
  of the first table read; and whenever the call returns a merged table, that table has
  the shape of the first table read and component \<open>i\<close> of every element of it is zero.
\<close>

theorem missing_components_zero:
  assumes dims: "\<forall>(k, f) \<in> set fileNames. \<forall>a iv. reader f = Inr (a, iv) \<longrightarrow> num_dimensions a = N"
  shows "(fileNames = [] \<longrightarrow> readAerodynamicCoefficients N reader fileNames = Inl NoFilesRead) \<and>
         (\<forall>raw iv i.
            fileNames \<noteq> [] \<and> readLoop reader fileNames ([], []) = Inr (raw, iv) \<and>
            i < 3 \<and> map_of fileNames (int i) = None \<longrightarrow>
            (\<exists>first ivf.
               reader (snd (hd fileNames)) = Inr (first, ivf) \<and>
               componentArray raw i = zero_filled (ma_shape first))) \<and>
         (\<forall>merged iv i.
            readAerodynamicCoefficients N reader fileNames = Inr (merged, iv) \<and>
            i < 3 \<and> map_of fileNames (int i) = None \<longrightarrow>
            (\<exists>first ivf.
               reader (snd (hd fileNames)) = Inr (first, ivf) \<and>
               ma_shape merged = ma_shape first \<and>
               (\<forall>v \<in> set (ma_data merged). vector_component v i = 0)))"
proof -
  \<comment> \<open>what holds once the files have been read\<close>
  have filled: "\<exists>first ivf k0 rawrest.
          reader (snd (hd fileNames)) = Inr (first, ivf) \<and> raw = (k0, first) # rawrest \<and>
          componentArray raw i = zero_filled (ma_shape first)"
    if loop: "readLoop reader fileNames ([], []) = Inr (raw, iv)" and ne: "fileNames \<noteq> []"
      and i: "map_of fileNames (int i) = None" for raw iv i
  proof -
    from readLoop_success [OF loop] have
      rel: "list_all2 (\<lambda>(k, f) (k', a). k' = k \<and> (\<exists>ivf. reader f = Inr (a, ivf))) fileNames raw"
      by simp
    from ne rel obtain k0 f0 rest k0' first rawrest where
      fn: "fileNames = (k0, f0) # rest" and rw: "raw = (k0', first) # rawrest"
      by (cases fileNames; cases raw) auto
    with rel obtain ivf where first: "reader f0 = Inr (first, ivf)"
      by auto
    have "map_of raw (int i) = None"
      using map_of_None_keys [OF rel] i by simp
    then have "componentArray raw i = zero_filled (ma_shape first)"
      by (simp add: componentArray_def rw)
    with first rw show ?thesis
      by (simp add: fn)
  qed
  show ?thesis
  proof (intro conjI impI allI)
    assume "fileNames = []"
    then show "readAerodynamicCoefficients N reader fileNames = Inl NoFilesRead"
      by (simp add: readAerodynamicCoefficients_def)
  next
    fix raw iv i
    assume "fileNames \<noteq> [] \<and> readLoop reader fileNames ([], []) = Inr (raw, iv) \<and>
            i < 3 \<and> map_of fileNames (int i) = None"
    then show "\<exists>first ivf. reader (snd (hd fileNames)) = Inr (first, ivf) \<and>
                 componentArray raw i = zero_filled (ma_shape first)"
      using filled [of raw iv i] by blast
  next
    fix merged iv i
    assume a: "readAerodynamicCoefficients N reader fileNames = Inr (merged, iv) \<and>
               i < 3 \<and> map_of fileNames (int i) = None"
    then obtain raw where
      loop: "readLoop reader fileNames ([], []) = Inr (raw, iv)" and
      raw: "raw \<noteq> []" and
      mrg: "mergeNDimensionalCoefficients N (componentArray raw 0) (componentArray raw 1)
              (componentArray raw 2) = Inr merged"
      by (auto simp: readAerodynamicCoefficients_unfold split: sum.splits if_splits prod.splits)
    from readLoop_success [OF loop] have
      rel: "list_all2 (\<lambda>(k, f) (k', a). k' = k \<and> (\<exists>ivf. reader f = Inr (a, ivf))) fileNames raw"
      by simp
    have ne: "fileNames \<noteq> []"
      using raw rel by auto
    from filled [OF loop ne] a obtain first ivf k0 rawrest where
      first: "reader (snd (hd fileNames)) = Inr (first, ivf)" and
      rw: "raw = (k0, first) # rawrest" and
      ci: "componentArray raw i = zero_filled (ma_shape first)"
      by blast
    \<comment> \<open>every table that was read has \<open>N\<close> dimensions\<close>
    have rawdims: "length (ma_shape t) = N" if "(k, t) \<in> set raw" for k t
    proof -
      from that obtain j where j: "j < length raw" "raw ! j = (k, t)"
        by (auto simp: in_set_conv_nth)
      with rel have jf: "j < length fileNames"
        by (simp add: list_all2_lengthD)
      obtain kj fj where kfj: "fileNames ! j = (kj, fj)"
        by (cases "fileNames ! j")
      from list_all2_nthD [OF rel jf] obtain ivf where "reader fj = Inr (t, ivf)"
        by (auto simp: kfj j(2))
      moreover have "(kj, fj) \<in> set fileNames"
        using jf kfj by (metis nth_mem)
      ultimately show ?thesis
        using dims by (auto simp: num_dimensions_def)
    qed
    have firstdims: "length (ma_shape first) = N"
      using rawdims [of k0 first] rw by simp
    have compdims: "length (ma_shape (componentArray raw j)) = N" for j
    proof (cases "map_of raw (int j)")
      case None
      then show ?thesis
        using firstdims by (simp add: componentArray_def rw zero_filled_def)
    next
      case (Some t)
      then have "(int j, t) \<in> set raw" by (rule map_of_SomeD)
      then show ?thesis
        using rawdims Some by (simp add: componentArray_def)
    qed
    \<comment> \<open>the merge succeeded, so the three shapes agree\<close>
    let ?c0 = "componentArray raw 0" and ?c1 = "componentArray raw 1"
      and ?c2 = "componentArray raw 2"
    have "\<not> list_ex (\<lambda>i. \<not> (ma_shape ?c0 ! i = ma_shape ?c1 ! i) \<or>
                          \<not> (ma_shape ?c0 ! i = ma_shape ?c2 ! i)) [0..<N]"
      using mrg by (auto simp: mergeNDimensionalCoefficients_def split: if_splits)
    then have same: "ma_shape ?c1 = ma_shape ?c0" "ma_shape ?c2 = ma_shape ?c0"
      using shapes_checked [of "ma_shape ?c0" N "ma_shape ?c1" "ma_shape ?c2"] compdims
      by auto
    have i012: "i = 0 \<or> i = 1 \<or> i = 2" using a by linarith
    then have shape_i: "ma_shape ?c0 = ma_shape first"
      using ci same by (auto simp: zero_filled_def)
    from merge_result [OF compdims same] mrg have
      merged: "merged = \<lparr> ma_shape = ma_shape ?c0,
                          ma_data = map (\<lambda>p. Vector3 (ma_data ?c0 ! p) (ma_data ?c1 ! p)
                                                     (ma_data ?c2 ! p))
                                        [0..<prod_list (ma_shape ?c0)] \<rparr>"
      by simp
    have zeros: "vector_component v i = 0" if "v \<in> set (ma_data merged)" for v
    proof -
      from that merged obtain p where
        p: "p < prod_list (ma_shape first)"
           "v = Vector3 (ma_data ?c0 ! p) (ma_data ?c1 ! p) (ma_data ?c2 ! p)"
        by (auto simp: shape_i)
      have "ma_data (componentArray raw i) ! p = 0"
        using p(1) by (simp add: ci zero_filled_nth)
      then show ?thesis
        using i012 p(2) by (auto simp: vector_component_def)
    qed
    show "\<exists>first ivf.
            reader (snd (hd fileNames)) = Inr (first, ivf) \<and>
            ma_shape merged = ma_shape first \<and>
            (\<forall>v \<in> set (ma_data merged). vector_component v i = 0)"
      using first shape_i zeros merged
      by (intro exI [of _ first] exI [of _ ivf]) simp
  qed
qed

lemma exampleReader_two_files:
  "readLoop exampleReader [(0, ''Cx.dat''), (2, ''Cz.dat'')] ([], [])
     = Inr ([(0, \<lparr> ma_shape = [2, 2], ma_data = [1, 2, 3, 4] \<rparr>),
             (2, \<lparr> ma_shape = [2, 2], ma_data = [5, 6, 7, 8] \<rparr>)],
            [[0, 1], [0, 10]])"
  by (simp add: exampleReader_def compareIndependentVariables_def)

lemma exampleReader_merged:
  "readAerodynamicCoefficients 2 exampleReader [(0, ''Cx.dat''), (2, ''Cz.dat'')]
     = Inr (\<lparr> ma_shape = [2, 2],
              ma_data = [Vector3 1 0 5, Vector3 2 0 6, Vector3 3 0 7, Vector3 4 0 8] \<rparr>,
            [[0, 1], [0, 10]])"
proof -
  let ?x = "\<lparr> ma_shape = [2, 2], ma_data = [1, 2, 3, 4 :: real] \<rparr>"
  let ?z = "\<lparr> ma_shape = [2, 2], ma_data = [5, 6, 7, 8 :: real] \<rparr>"
  let ?raw = "[(0 :: int, ?x), (2, ?z)]"
  have c: "componentArray ?raw 0 = ?x" "componentArray ?raw 1 = zero_filled [2, 2]"
    "componentArray ?raw 2 = ?z"
    by (simp_all add: componentArray_def)
  have four: "[0..<4] = [0, 1, 2, 3 :: nat]"
    by (simp add: upt_rec)
  have m: "mergeNDimensionalCoefficients 2 ?x (zero_filled [2, 2]) ?z
          = Inr \<lparr> ma_shape = [2, 2],
                  ma_data = [Vector3 1 0 5, Vector3 2 0 6, Vector3 3 0 7, Vector3 4 0 8] \<rparr>"
    by (subst merge_result) (simp_all add: zero_filled_def four)
  have "readAerodynamicCoefficients 2 exampleReader [(0, ''Cx.dat''), (2, ''Cz.dat'')]
          = (case mergeNDimensionalCoefficients 2
                    (componentArray ?raw 0) (componentArray ?raw 1) (componentArray ?raw 2) of
               Inl e \<Rightarrow> Inl e
             | Inr merged \<Rightarrow> Inr (merged, [[0, 1], [0, 10]]))"
    by (simp only: readAerodynamicCoefficients_unfold exampleReader_two_files
        sum.case prod.case list.simps if_False)
  also have "\<dots> = Inr (\<lparr> ma_shape = [2, 2],
              ma_data = [Vector3 1 0 5, Vector3 2 0 6, Vector3 3 0 7, Vector3 4 0 8] \<rparr>,
            [[0, 1], [0, 10]])"
    by (simp only: c m sum.case)
  finally show ?thesis .
qed

text \<open>Files for the axes 0 and 2 only: the array of axis 1 is zero-filled, the merged
  table has the shape of the first table and a zero second component. The empty map is
  refused.\<close>

theorem missing_components_zero_witness:
  "readAerodynamicCoefficients 2 exampleReader [] = Inl NoFilesRead \<and>
   map_of [(0, ''Cx.dat''), (2, ''Cz.dat'')] (int 1) = None \<and>
   readAerodynamicCoefficients 2 exampleReader [(0, ''Cx.dat''), (2, ''Cz.dat'')]
     = Inr (\<lparr> ma_shape = [2, 2],
              ma_data = [Vector3 1 0 5, Vector3 2 0 6, Vector3 3 0 7, Vector3 4 0 8] \<rparr>,
            [[0, 1], [0, 10]]) \<and>
   (\<exists>first ivf.
      exampleReader ''Cx.dat'' = Inr (first, ivf) \<and> ma_shape first = [2, 2] \<and>
      componentArray [(0, \<lparr> ma_shape = [2, 2], ma_data = [1, 2, 3, 4] \<rparr>),
                      (2, \<lparr> ma_shape = [2, 2], ma_data = [5, 6, 7, 8] \<rparr>)] 1
        = zero_filled (ma_shape first) \<and>
      vector_component (Vector3 3 0 7) 1 = (0 :: real))"
proof -
  let ?files = "[(0 :: int, ''Cx.dat''), (2, ''Cz.dat'')]"
  let ?raw = "[(0 :: int, \<lparr> ma_shape = [2, 2], ma_data = [1, 2, 3, 4 :: real] \<rparr>),
               (2, \<lparr> ma_shape = [2, 2], ma_data = [5, 6, 7, 8] \<rparr>)]"
  let ?merged = "\<lparr> ma_shape = [2, 2],
      ma_data = [Vector3 1 0 5, Vector3 2 0 6, Vector3 3 0 7, Vector3 (4 :: real) 0 8] \<rparr>"
  have dims0: "\<forall>(k, f) \<in> set ([] :: (int \<times> string) list).
                 \<forall>a iv. exampleReader f = Inr (a, iv) \<longrightarrow> num_dimensions a = 2"
    by simp
  have dims: "\<forall>(k, f) \<in> set ?files.
                \<forall>a iv. exampleReader f = Inr (a, iv) \<longrightarrow> num_dimensions a = 2"
    by (auto simp: exampleReader_def num_dimensions_def)
  have none: "map_of ?files (int 1) = None"
    by simp
  have empty: "readAerodynamicCoefficients 2 exampleReader [] = Inl NoFilesRead"
    using missing_components_zero [OF dims0] by simp
  note inst = missing_components_zero [OF dims]
  have "?files \<noteq> [] \<and> readLoop exampleReader ?files ([], []) = Inr (?raw, [[0, 1], [0, 10]]) \<and>
        (1 :: nat) < 3 \<and> map_of ?files (int 1) = None"
    using exampleReader_two_files none by simp
  with inst obtain first ivf where f:
    "exampleReader (snd (hd ?files)) = Inr (first, ivf)"
    "componentArray ?raw 1 = zero_filled (ma_shape first)"
    by blast
  have "readAerodynamicCoefficients 2 exampleReader ?files = Inr (?merged, [[0, 1], [0, 10]]) \<and>
        (1 :: nat) < 3 \<and> map_of ?files (int 1) = None"
    using exampleReader_merged none by simp
  with inst obtain first' ivf' where m:
    "exampleReader (snd (hd ?files)) = Inr (first', ivf')"
    "ma_shape ?merged = ma_shape first'"
    "\<forall>v \<in> set (ma_data ?merged). vector_component v 1 = 0"
    by blast
  have same: "first' = first"
    using f(1) m(1) by simp
  have z: "vector_component (Vector3 3 0 7) 1 = (0 :: real)"
    using m(3) by simp
  have "exampleReader ''Cx.dat'' = Inr (first, ivf) \<and> ma_shape first = [2, 2] \<and>
        componentArray ?raw 1 = zero_filled (ma_shape first) \<and>
        vector_component (Vector3 3 0 7) 1 = (0 :: real)"
    using f m(2) same z by simp
  then have "\<exists>first ivf.
      exampleReader ''Cx.dat'' = Inr (first, ivf) \<and> ma_shape first = [2, 2] \<and>
      componentArray ?raw 1 = zero_filled (ma_shape first) \<and>
      vector_component (Vector3 3 0 7) 1 = (0 :: real)"
    by blast
  with empty none exampleReader_merged show ?thesis
    by simp
qed

section \<open>The coefficient-interface factory\<close>

lemma createBase_tabulated_outside:
  assumes "aerodynamicCoefficientType cs = tabulated_coefficients"
      and "length (independentVariableNames cs) < 1 \<or> 6 < length (independentVariableNames cs)"
  shows "createBaseCoefficientInterface I cs body
           = Inl (UnsupportedDimensionality (int (length (independentVariableNames cs))))"
  using assms by (auto simp: createBaseCoefficientInterface_def Let_def)

lemma createBase_tabulated_dispatch:
  assumes "aerodynamicCoefficientType cs = tabulated_coefficients"
      and "1 \<le> length (independentVariableNames cs)" "length (independentVariableNames cs) \<le> 6"
  shows "createBaseCoefficientInterface I cs body =
           (if length (independentVariableNames cs) = 1
            then createUnivariateTabulatedCoefficientAerodynamicCoefficientInterface I cs body
            else createTabulatedCoefficientAerodynamicCoefficientInterface
                   (length (independentVariableNames cs)) I cs body)"
proof -
  consider "length (independentVariableNames cs) = 1" | "length (independentVariableNames cs) = 2"
    | "length (independentVariableNames cs) = 3" | "length (independentVariableNames cs) = 4"
    | "length (independentVariableNames cs) = 5" | "length (independentVariableNames cs) = 6"
    using assms(2,3) by linarith
  then show ?thesis
    using assms(1) by cases (simp_all add: createBaseCoefficientInterface_def)
qed

lemma createBase_tabulated_mismatch:
  assumes "aerodynamicCoefficientType cs = tabulated_coefficients"
      and "1 \<le> length (independentVariableNames cs)" "length (independentVariableNames cs) \<le> 6"
      and "\<forall>f m i. settingsClass cs \<noteq>
             TabulatedAerodynamicCoefficientSettings (length (independentVariableNames cs)) f m i"
  shows "createBaseCoefficientInterface I cs body = Inl SettingsTypeMismatch"
  using assms(4)
  unfolding createBase_tabulated_dispatch [OF assms(1-3)]
  by (auto simp: createUnivariateTabulatedCoefficientAerodynamicCoefficientInterface_def
      createTabulatedCoefficientAerodynamicCoefficientInterface_def split: SettingsClass.splits)

lemma createBase_tabulated_match:
  assumes "aerodynamicCoefficientType cs = tabulated_coefficients"
      and "1 \<le> length (independentVariableNames cs)" "length (independentVariableNames cs) \<le> 6"
      and "settingsClass cs =
             TabulatedAerodynamicCoefficientSettings (length (independentVariableNames cs)) f m i"
  shows "\<exists>iface. createBaseCoefficientInterface I cs body = Inr iface"
  using assms(4)
  unfolding createBase_tabulated_dispatch [OF assms(1-3)]
  by (simp add: createUnivariateTabulatedCoefficientAerodynamicCoefficientInterface_def
      createTabulatedCoefficientAerodynamicCoefficientInterface_def)

text \<open>
  C3, as the code has it: for settings whose declared type is tabulated, with \<open>n\<close>
  independent-variable names. If \<open>n\<close> is outside 1..6 the factory fails with the
  unsupported-dimensionality error for \<open>n\<close>. If \<open>n\<close> is within 1..6 and the settings
  object is not a \<open>TabulatedAerodynamicCoefficientSettings< n >\<close>, it fails with the
  settings-type mismatch. If \<open>n\<close> is within 1..6, the object is a
  \<open>TabulatedAerodynamicCoefficientSettings< n >\<close> and its control-surface settings (if
  any) can be built, the factory returns an interface.
\<close>

theorem tabulated_dimension_dispatch:
  assumes "aerodynamicCoefficientType cs = tabulated_coefficients"
  shows "(length (independentVariableNames cs) < 1 \<or> 6 < length (independentVariableNames cs) \<longrightarrow>
            createAerodynamicCoefficientInterface I cs body
              = Inl (UnsupportedDimensionality (int (length (independentVariableNames cs)))))
       \<and> (1 \<le> length (independentVariableNames cs) \<and> length (independentVariableNames cs) \<le> 6 \<and>
          (\<forall>f m i. settingsClass cs \<noteq>
             TabulatedAerodynamicCoefficientSettings (length (independentVariableNames cs)) f m i) \<longrightarrow>
            createAerodynamicCoefficientInterface I cs body = Inl SettingsTypeMismatch)
       \<and> (1 \<le> length (independentVariableNames cs) \<and> length (independentVariableNames cs) \<le> 6 \<and>
          (\<exists>f m i. settingsClass cs =
             TabulatedAerodynamicCoefficientSettings (length (independentVariableNames cs)) f m i) \<and>
          (\<exists>incs. createControlSurfaceIncrementInterfaces I (controlSurfaceSettings cs) body
                    = Inr incs) \<longrightarrow>
            (\<exists>iface. createAerodynamicCoefficientInterface I cs body = Inr iface))"
proof (intro conjI impI)
  assume "length (independentVariableNames cs) < 1 \<or> 6 < length (independentVariableNames cs)"
  then show "createAerodynamicCoefficientInterface I cs body
              = Inl (UnsupportedDimensionality (int (length (independentVariableNames cs))))"
    using createBase_tabulated_outside [OF assms]
    by (simp add: createAerodynamicCoefficientInterface_def)
next
  assume "1 \<le> length (independentVariableNames cs) \<and> length (independentVariableNames cs) \<le> 6 \<and>
          (\<forall>f m i. settingsClass cs \<noteq>
             TabulatedAerodynamicCoefficientSettings (length (independentVariableNames cs)) f m i)"
  then show "createAerodynamicCoefficientInterface I cs body = Inl SettingsTypeMismatch"
    using createBase_tabulated_mismatch [OF assms]
    by (simp add: createAerodynamicCoefficientInterface_def)
next
  assume a: "1 \<le> length (independentVariableNames cs) \<and> length (independentVariableNames cs) \<le> 6 \<and>
          (\<exists>f m i. settingsClass cs =
             TabulatedAerodynamicCoefficientSettings (length (independentVariableNames cs)) f m i) \<and>
          (\<exists>incs. createControlSurfaceIncrementInterfaces I (controlSurfaceSettings cs) body
                    = Inr incs)"
  then obtain iface where "createBaseCoefficientInterface I cs body = Inr iface"
    using createBase_tabulated_match [OF assms] by blast
  with a show "\<exists>iface. createAerodynamicCoefficientInterface I cs body = Inr iface"
    by (auto simp: createAerodynamicCoefficientInterface_def)
qed

text \<open>One Mach-dependent table builds; seven declared variables are refused; a
  two-dimensional table object behind one declared variable is a type mismatch.\<close>

theorem tabulated_dimension_dispatch_witness:
  "aerodynamicCoefficientType exampleSettings = tabulated_coefficients \<and>
   length (independentVariableNames exampleSettings) = 1 \<and>
   (\<exists>iface. createAerodynamicCoefficientInterface exampleInterpolators exampleSettings
              ''Vehicle'' = Inr iface) \<and>
   aerodynamicCoefficientType exampleSettingsOfSevenVariables = tabulated_coefficients \<and>
   length (independentVariableNames exampleSettingsOfSevenVariables) = 7 \<and>
   createAerodynamicCoefficientInterface exampleInterpolators exampleSettingsOfSevenVariables
     ''Vehicle'' = Inl (UnsupportedDimensionality 7) \<and>
   aerodynamicCoefficientType exampleSettingsOfOtherClass = tabulated_coefficients \<and>
   length (independentVariableNames exampleSettingsOfOtherClass) = 1 \<and>
   createAerodynamicCoefficientInterface exampleInterpolators exampleSettingsOfOtherClass
     ''Vehicle'' = Inl SettingsTypeMismatch"
proof -
  have t: "aerodynamicCoefficientType exampleSettings = tabulated_coefficients"
    "aerodynamicCoefficientType exampleSettingsOfSevenVariables = tabulated_coefficients"
    "aerodynamicCoefficientType exampleSettingsOfOtherClass = tabulated_coefficients"
    by (simp_all add: exampleSettings_def exampleSettingsOfSevenVariables_def
        exampleSettingsOfOtherClass_def)
  have n: "length (independentVariableNames exampleSettings) = 1"
    "length (independentVariableNames exampleSettingsOfSevenVariables) = 7"
    "length (independentVariableNames exampleSettingsOfOtherClass) = 1"
    by (simp_all add: exampleSettings_def exampleSettingsOfSevenVariables_def
        exampleSettingsOfOtherClass_def)
  have c: "settingsClass exampleSettings
             = TabulatedAerodynamicCoefficientSettings 1 exampleForceTable exampleMomentTable ()"
    "\<forall>f m i. settingsClass exampleSettingsOfOtherClass
               \<noteq> TabulatedAerodynamicCoefficientSettings 1 f m i"
    by (simp_all add: exampleSettings_def exampleSettingsOfOtherClass_def)
  have s: "createControlSurfaceIncrementInterfaces exampleInterpolators
             (controlSurfaceSettings exampleSettings) ''Vehicle'' = Inr []"
    by (simp add: exampleSettings_def)
  have ok: "\<exists>iface. createAerodynamicCoefficientInterface exampleInterpolators exampleSettings
              ''Vehicle'' = Inr iface"
    using tabulated_dimension_dispatch [OF t(1), of exampleInterpolators "''Vehicle''"] n(1) c(1) s
    by simp
  have seven: "createAerodynamicCoefficientInterface exampleInterpolators
                 exampleSettingsOfSevenVariables ''Vehicle'' = Inl (UnsupportedDimensionality 7)"
    using tabulated_dimension_dispatch [OF t(2), of exampleInterpolators "''Vehicle''"] n(2)
    by simp
  have other: "createAerodynamicCoefficientInterface exampleInterpolators
                 exampleSettingsOfOtherClass ''Vehicle'' = Inl SettingsTypeMismatch"
    using tabulated_dimension_dispatch [OF t(3), of exampleInterpolators "''Vehicle''"] n(3) c(2)
    by simp
  show ?thesis
    using t n ok seven other by simp
qed

text \<open>
  C3 as stated promises an interface for every tabulated settings object that declares
  between one and six independent variables. Settings that declare one variable and hold
  a two-dimensional table object are refused by the checked downcast of the univariate
  factory.
\<close>

theorem tabulated_mismatch_counterexample:
  "aerodynamicCoefficientType exampleSettingsOfOtherClass = tabulated_coefficients \<and>
   settingsClass exampleSettingsOfOtherClass
     = TabulatedAerodynamicCoefficientSettings 2 exampleForceTable exampleMomentTable () \<and>
   length (independentVariableNames exampleSettingsOfOtherClass) = 1 \<and>
   createAerodynamicCoefficientInterface exampleInterpolators exampleSettingsOfOtherClass
     ''Vehicle'' = Inl SettingsTypeMismatch"
  by (simp add: exampleSettingsOfOtherClass_def exampleSettings_def
      createAerodynamicCoefficientInterface_def createBaseCoefficientInterface_def
      createUnivariateTabulatedCoefficientAerodynamicCoefficientInterface_def)

text \<open>The file-reading front end selects a reading template for 1, 2 and 3 independent
  variables only ("up to 3 currently supported").\<close>

lemma file_reader_dimension_dispatch:
  assumes "map_of forceCoefficientFiles 0 = Some file"
      and "getNumber file < 1 \<or> 3 < getNumber file"
  shows "readTabulatedAerodynamicCoefficientsFromFiles getNumber readGivenSize
           forceCoefficientFiles momentCoefficientFiles args
         = Inl (UnsupportedDimensionality (getNumber file))"
  using assms by (auto simp: readTabulatedAerodynamicCoefficientsFromFiles_def Let_def)

text \<open>
  C8: for every settings object that is a \<open>TabulatedAerodynamicCoefficientSettings< 1 >\<close>,
  the univariate factory returns an interface whose force and whose moment coefficient
  function are both the interpolator of the force table; so at every list of
  independent-variable values the moment coefficients it returns are the force
  coefficients. The moment table is not read.
\<close>

theorem univariate_moment_equals_force:
  assumes "settingsClass cs
             = TabulatedAerodynamicCoefficientSettings 1 forceTable momentTable interpolation"
  shows "\<exists>iface.
           createUnivariateTabulatedCoefficientAerodynamicCoefficientInterface I cs body
             = Inr iface \<and>
           forceCoefficientFunction iface
             = createOneDimensionalInterpolator I forceTable interpolation \<and>
           momentCoefficientFunction iface
             = createOneDimensionalInterpolator I forceTable interpolation \<and>
           (\<forall>vars. momentCoefficientFunction iface vars = forceCoefficientFunction iface vars)"
  using assms
  by (simp add: createUnivariateTabulatedCoefficientAerodynamicCoefficientInterface_def)

text \<open>At the breakpoint 1 the force table has \<open>(4, 5, 6)\<close> and the moment table
  \<open>(10, 11, 12)\<close>; the interface returns \<open>(4, 5, 6)\<close> for both.\<close>

theorem univariate_moment_equals_force_witness:
  "settingsClass exampleSettings
     = TabulatedAerodynamicCoefficientSettings 1 exampleForceTable exampleMomentTable () \<and>
   map_of exampleForceTable [1] = Some (Vector3 4 5 6) \<and>
   map_of exampleMomentTable [1] = Some (Vector3 10 11 12) \<and>
   (\<exists>iface.
      createUnivariateTabulatedCoefficientAerodynamicCoefficientInterface exampleInterpolators
        exampleSettings ''Vehicle'' = Inr iface \<and>
      forceCoefficientFunction iface [1] = Vector3 4 5 6 \<and>
      momentCoefficientFunction iface [1] = Vector3 4 5 6)"
proof -
  have c: "settingsClass exampleSettings
             = TabulatedAerodynamicCoefficientSettings 1 exampleForceTable exampleMomentTable ()"
    by (simp add: exampleSettings_def)
  have t: "map_of exampleForceTable [1] = Some (Vector3 4 5 6)"
    "map_of exampleMomentTable [1] = Some (Vector3 10 11 12)"
    by (simp_all add: exampleForceTable_def exampleMomentTable_def)
  from univariate_moment_equals_force [OF c, of exampleInterpolators "''Vehicle''"]
  obtain iface where i:
    "createUnivariateTabulatedCoefficientAerodynamicCoefficientInterface exampleInterpolators
       exampleSettings ''Vehicle'' = Inr iface"
    "forceCoefficientFunction iface
       = createOneDimensionalInterpolator exampleInterpolators exampleForceTable ()"
    "\<forall>vars. momentCoefficientFunction iface vars = forceCoefficientFunction iface vars"
    by blast
  have "forceCoefficientFunction iface [1] = Vector3 4 5 6"
    by (simp add: i(2) exampleInterpolators_def t)
  with i(1,3) c t show ?thesis
    by simp
qed


end
